theory Spec2Isabelle
  imports Main "HOL-Library.Finite_Map" "HOL-Library.Sublist"
    "HOL-Library.List_Lexorder" "HOL-Library.Char_ord"
begin

section \<open>Python values\<close>

text \<open>
  The values that flow through \<^verbatim>\<open>omevv_baseline_profile.py\<close> and
  \<^verbatim>\<open>omevv_firmware_utils.py\<close> are JSON documents and the module parameters:
  \<^verbatim>\<open>None\<close>, booleans, integers, strings, lists and dictionaries. A dictionary is a
  finite map, so that HOL equality on it is Python's \<^verbatim>\<open>==\<close> on dicts (same keys, equal
  values, whatever the insertion order). Values are compared structurally; that Python
  also identifies \<^verbatim>\<open>True\<close> with \<^verbatim>\<open>1\<close> and \<^verbatim>\<open>False\<close> with \<^verbatim>\<open>0\<close> is not
  modelled, and there are no floats.
\<close>

datatype json =
    JNull
  | JBool bool
  | JInt int
  | JStr string
  | JList "json list"
  | JDict "(string, json) fmap"

type_synonym dict = "(string, json) fmap"

text \<open>The exceptions of the two files, each with the text \<^verbatim>\<open>str(err)\<close> gives. An
  \<^verbatim>\<open>HTTPError\<close> carries its status code and the document \<^verbatim>\<open>json.load(err)\<close> reads
  from it (\<open>None\<close> when the body is not JSON). \<open>OtherException\<close> stands for any exception
  class that \<^verbatim>\<open>main\<close> has no handler for.\<close>

datatype exn =
    HTTPError int "json option"
  | URLError string
  | ConnectionError string
  | IOError string
  | ValueError string
  | TypeError string
  | AttributeError string
  | IndexError string
  | KeyError string
  | OSError string
  | OtherException string

text \<open>The texts of the two errors that Python itself raises in these files: a call
  that passes too few positional arguments, and the lookup of an attribute that an object
  does not have (as CPython 3.9 words them).\<close>

definition quoted :: "string \<Rightarrow> string" where
  "quoted s = [CHR 0x27] @ s @ [CHR 0x27]"

definition missing_argument :: "string \<Rightarrow> string \<Rightarrow> string" where
  "missing_argument f a = f @ ''() missing 1 required positional argument: '' @ quoted a"

definition no_attribute :: "string \<Rightarrow> string \<Rightarrow> string" where
  "no_attribute c a = quoted c @ '' object has no attribute '' @ quoted a"

text \<open>Truth value testing (\<^verbatim>\<open>if x:\<close>, \<^verbatim>\<open>not x\<close>).\<close>

fun truthy :: "json \<Rightarrow> bool" where
  "truthy JNull = False"
| "truthy (JBool b) = b"
| "truthy (JInt i) = (i \<noteq> 0)"
| "truthy (JStr s) = (s \<noteq> [])"
| "truthy (JList xs) = (xs \<noteq> [])"
| "truthy (JDict d) = (d \<noteq> fmempty)"

text \<open>\<^verbatim>\<open>d.get(k)\<close> on a dictionary.\<close>

definition get :: "dict \<Rightarrow> string \<Rightarrow> json" where
  "get d k = (case fmlookup d k of None \<Rightarrow> JNull | Some v \<Rightarrow> v)"

text \<open>\<^verbatim>\<open>x.get(k)\<close> on any value: only a dictionary has the method.\<close>

fun dict_get :: "json \<Rightarrow> string \<Rightarrow> exn + json" where
  "dict_get (JDict d) k = Inr (get d k)"
| "dict_get _ k = Inl (AttributeError (no_attribute ''object'' ''get''))"

text \<open>\<^verbatim>\<open>x[k]\<close> with a string key: \<^verbatim>\<open>KeyError\<close> on a dictionary without the key,
  \<^verbatim>\<open>TypeError\<close> on a list, a string, a number or \<^verbatim>\<open>None\<close>.\<close>

fun subscript :: "json \<Rightarrow> string \<Rightarrow> exn + json" where
  "subscript (JDict d) k =
     (case fmlookup d k of None \<Rightarrow> Inl (KeyError k) | Some v \<Rightarrow> Inr v)"
| "subscript (JList xs) k = Inl (TypeError ''list indices must be integers or slices, not str'')"
| "subscript (JStr s) k = Inl (TypeError ''string indices must be integers'')"
| "subscript _ k = Inl (TypeError ''object is not subscriptable'')"

text \<open>\<^verbatim>\<open>for x in v\<close>: the elements of a list, the characters of a string, the keys of a
  dictionary. A finite map does not record Python's insertion order, so the keys come
  sorted; every loop of the two files fails in the same way on whichever key comes
  first, a string being neither subscriptable by name nor a dictionary.\<close>

fun iterate :: "json \<Rightarrow> exn + json list" where
  "iterate (JList xs) = Inr xs"
| "iterate (JStr s) = Inr (map (\<lambda>c. JStr [c]) s)"
| "iterate (JDict d) = Inr (map JStr (sorted_list_of_fset (fmdom d)))"
| "iterate _ = Inl (TypeError ''object is not iterable'')"

text \<open>\<^verbatim>\<open>{k: v for k, v in d.items() if v is not None}\<close>.\<close>

definition drop_none :: "dict \<Rightarrow> dict" where
  "drop_none d = fmfilter (\<lambda>k. fmlookup d k \<noteq> Some JNull) d"

text \<open>An optional string parameter as a value: \<^verbatim>\<open>None\<close> or the string.\<close>

fun opt_str :: "string option \<Rightarrow> json" where
  "opt_str None = JNull"
| "opt_str (Some s) = JStr s"

section \<open>Schedule builder\<close>

text \<open>\<^verbatim>\<open>OMEVVBaselineProfile.create_job_schedule(days, time)\<close>. The arguments are the
  module parameters \<^verbatim>\<open>days\<close> (a list of strings or \<^verbatim>\<open>None\<close>) and \<^verbatim>\<open>time\<close> (a string
  or \<^verbatim>\<open>None\<close>); \<^verbatim>\<open>if days and time\<close> is false for \<^verbatim>\<open>None\<close>, for the empty list and
  for the empty string.\<close>

definition create_job_schedule :: "string list option \<Rightarrow> string option \<Rightarrow> json" where
  "create_job_schedule days time =
     (case (days, time) of
        (Some ds, Some t) \<Rightarrow>
          if ds \<noteq> [] \<and> t \<noteq> [] then
            (let days_selected = set ds in
             if ''all'' \<in> days_selected then
               JDict (fmap_of_list
                 [(''monday'', JBool True),
                  (''tuesday'', JBool True),
                  (''wednesday'', JBool True),
                  (''thursday'', JBool True),
                  (''friday'', JBool True),
                  (''saturday'', JBool True),
                  (''sunday'', JBool True),
                  (''time'', JStr t)])
             else
               JDict (fmap_of_list
                 [(''monday'', JBool (''monday'' \<in> days_selected)),
                  (''tuesday'', JBool (''tuesday'' \<in> days_selected)),
                  (''wednesday'', JBool (''wednesday'' \<in> days_selected)),
                  (''thursday'', JBool (''thursday'' \<in> days_selected)),
                  (''friday'', JBool (''friday'' \<in> days_selected)),
                  (''saturday'', JBool (''saturday'' \<in> days_selected)),
                  (''sunday'', JBool (''sunday'' \<in> days_selected)),
                  (''time'', JStr t)]))
          else JNull
      | _ \<Rightarrow> JNull)"

text \<open>The schedule with the given seven flags (monday to sunday) and time.\<close>

definition schedule :: "bool \<Rightarrow> bool \<Rightarrow> bool \<Rightarrow> bool \<Rightarrow> bool \<Rightarrow> bool \<Rightarrow> bool \<Rightarrow> string \<Rightarrow> json" where
  "schedule mo tu we th fr sa su t =
     JDict (fmap_of_list
       [(''monday'', JBool mo), (''tuesday'', JBool tu), (''wednesday'', JBool we),
        (''thursday'', JBool th), (''friday'', JBool fr), (''saturday'', JBool sa),
        (''sunday'', JBool su), (''time'', JStr t)])"

section \<open>The module, the REST client and the trace of a run\<close>

text \<open>The parameters of the module as \<^verbatim>\<open>argument_spec\<close> types them. Ansible puts every
  key of the specification into \<^verbatim>\<open>module.params\<close>, with \<^verbatim>\<open>None\<close> for an option that was
  not given, so \<^verbatim>\<open>params.get(key, default)\<close> never takes its default for these keys.
  The fields carry the prefix \<open>p_\<close> because the source's functions use the same words
  for their arguments.\<close>

datatype state_choice = present | absent

record params =
  p_state :: state_choice
  p_name :: string
  p_cluster :: "string list option"
  p_description :: "string option"
  p_days :: "string list option"
  p_time :: "string option"
  p_repository_profile :: "string option"
  p_job_wait :: bool
  p_job_wait_timeout :: int
  p_vcenter_uuid :: string

text \<open>\<^verbatim>\<open>module.params\<close>, \<^verbatim>\<open>module.check_mode\<close> and \<^verbatim>\<open>module._diff\<close>.\<close>

record module =
  params :: params
  check_mode :: bool
  diff_mode :: bool

text \<open>The keyword arguments of \<^verbatim>\<open>module.exit_json\<close>; \<open>None\<close> is a keyword that the
  call does not pass.\<close>

record exit_kwargs =
  msg :: json
  changed :: "bool option"
  failed :: "bool option"
  skipped :: "bool option"
  unreachable :: "bool option"
  diff :: "json option"
  baseline_profile_info :: "json option"
  error_info :: "json option"

definition kwargs :: "json \<Rightarrow> exit_kwargs" where
  "kwargs m = \<lparr>msg = m, changed = None, failed = None, skipped = None, unreachable = None,
     diff = None, baseline_profile_info = None, error_info = None\<rparr>"

text \<open>A request names its HTTP verb, its path and its body. A path is a URI template
  filled in, or such a path followed by \<^verbatim>\<open>"/" + str(id)\<close>, kept as the pair of the path
  and the id.\<close>

datatype verb = GET | POST | PUT | PATCH | DELETE

datatype uri = Uri string | UriWithId string json

datatype event = Request verb uri "json option" | Sleep nat

type_synonym trace = "event list"

record response =
  success :: bool
  json_data :: json

text \<open>The REST client \<^verbatim>\<open>RestOMEVV\<close> is not part of the two files. Its
  \<^verbatim>\<open>invoke_request\<close> is a parameter: a backend answers each request, given everything
  the run has done up to and including that request, with a response or by raising.
  The model starts with the session open and records the requests made through it.\<close>

type_synonym backend = "trace \<Rightarrow> exn + response"

text \<open>A run ends a computation early by \<^verbatim>\<open>exit_json\<close> (which raises \<^verbatim>\<open>SystemExit\<close>) or
  by an exception.\<close>

datatype abort = Exit exit_kwargs | Raise exn

type_synonym 'a io = "trace \<Rightarrow> (abort + 'a) \<times> trace"

definition return :: "'a \<Rightarrow> 'a io" where
  "return x = (\<lambda>tr. (Inr x, tr))"

definition bind :: "'a io \<Rightarrow> ('a \<Rightarrow> 'b io) \<Rightarrow> 'b io" where
  "bind m f = (\<lambda>tr. case m tr of (Inl a, tr') \<Rightarrow> (Inl a, tr') | (Inr x, tr') \<Rightarrow> f x tr')"

definition raise :: "exn \<Rightarrow> 'a io" where
  "raise e = (\<lambda>tr. (Inl (Raise e), tr))"

definition exit_json :: "exit_kwargs \<Rightarrow> 'a io" where
  "exit_json kw = (\<lambda>tr. (Inl (Exit kw), tr))"

definition lift :: "exn + 'a \<Rightarrow> 'a io" where
  "lift r = (case r of Inl e \<Rightarrow> raise e | Inr x \<Rightarrow> return x)"

definition invoke_request :: "backend \<Rightarrow> verb \<Rightarrow> uri \<Rightarrow> json option \<Rightarrow> response io" where
  "invoke_request b m u payload =
     (\<lambda>tr. let tr' = tr @ [Request m u payload]
           in case b tr' of Inl e \<Rightarrow> (Inl (Raise e), tr') | Inr r \<Rightarrow> (Inr r, tr'))"

text \<open>\<^verbatim>\<open>time.sleep(n)\<close>.\<close>

definition sleep :: "nat \<Rightarrow> unit io" where
  "sleep n = (\<lambda>tr. (Inr (), tr @ [Sleep n]))"

text \<open>A list comprehension \<^verbatim>\<open>[e(x) for x in xs if c(x)]\<close> whose condition or element may
  raise: \<open>f x\<close> is \<open>Inr None\<close> when the condition fails.\<close>

fun comprehend :: "('a \<Rightarrow> exn + 'b option) \<Rightarrow> 'a list \<Rightarrow> exn + 'b list" where
  "comprehend f [] = Inr []"
| "comprehend f (x # xs) =
     (case f x of
        Inl e \<Rightarrow> Inl e
      | Inr r \<Rightarrow>
          (case comprehend f xs of
             Inl e \<Rightarrow> Inl e
           | Inr ys \<Rightarrow> Inr (case r of None \<Rightarrow> ys | Some y \<Rightarrow> y # ys)))"

text \<open>\<^verbatim>\<open>x in names\<close> for a parameter that is a list of strings or \<^verbatim>\<open>None\<close>.\<close>

fun is_in :: "json \<Rightarrow> string list option \<Rightarrow> exn + bool" where
  "is_in x None = Inl (TypeError ''argument of type NoneType is not iterable'')"
| "is_in x (Some names) = Inr (x \<in> JStr ` set names)"

text \<open>\<^verbatim>\<open>", ".join(xs)\<close>.\<close>

fun join :: "string list \<Rightarrow> string" where
  "join [] = []"
| "join [x] = x"
| "join (x # y # ys) = x @ '', '' @ join (y # ys)"

section \<open>\<^verbatim>\<open>omevv_firmware_utils.py\<close>\<close>

definition INVALID_REPO_PROFILE_MSG :: "string option \<Rightarrow> string" where
  "INVALID_REPO_PROFILE_MSG repository_profile =
     ''Invalid repository profile: ''
       @ (case repository_profile of None \<Rightarrow> ''None'' | Some s \<Rightarrow> s)
       @ ''. Please provide a valid profile.''"

definition NO_REPO_PROFILE_MSG :: string where
  "NO_REPO_PROFILE_MSG = ''No repository profiles found.''"

definition INVALID_CLUSTER_NAMES_MSG :: "string \<Rightarrow> string" where
  "INVALID_CLUSTER_NAMES_MSG cluster_names =
     ''Invalid cluster names: '' @ cluster_names @ ''. Please provide valid clusters.''"

definition NO_CLUSTERS_FOUND_MSG :: string where
  "NO_CLUSTERS_FOUND_MSG = ''No clusters found.''"

definition PROFILE_URI :: string where
  "PROFILE_URI = ''/RepositoryProfiles''"

definition BASELINE_PROFILE_URI :: "string \<Rightarrow> string" where
  "BASELINE_PROFILE_URI vcenter_uuid = ''/Consoles/'' @ vcenter_uuid @ ''/BaselineProfiles''"

definition CLUSTER_URI :: "string \<Rightarrow> string" where
  "CLUSTER_URI vcenter_uuid = ''/Consoles/'' @ vcenter_uuid @ ''/Clusters''"

definition CLUSTER_IDS_URI :: "string \<Rightarrow> string" where
  "CLUSTER_IDS_URI vcenter_uuid =
     ''/Consoles/'' @ vcenter_uuid @ ''/Groups/getGroupsForClusters''"

definition DRIFT_URI :: "string \<Rightarrow> string" where
  "DRIFT_URI vcenter_uuid = ''/Consoles/'' @ vcenter_uuid @ ''/UpdateJobs''"

subsection \<open>\<^verbatim>\<open>OMEVVFirmwareProfile\<close>\<close>

text \<open>\<^verbatim>\<open>search_profile_name(data, profile_name)\<close>: the first element whose
  \<^verbatim>\<open>profileName\<close> is the name, or \<^verbatim>\<open>{}\<close>.\<close>

fun search_profiles :: "json list \<Rightarrow> string \<Rightarrow> exn + json" where
  "search_profiles [] profile_name = Inr (JDict fmempty)"
| "search_profiles (d # ds) profile_name =
     (case dict_get d ''profileName'' of
        Inl e \<Rightarrow> Inl e
      | Inr v \<Rightarrow> if v = JStr profile_name then Inr d else search_profiles ds profile_name)"

definition search_profile_name :: "json \<Rightarrow> string \<Rightarrow> exn + json" where
  "search_profile_name data profile_name =
     (case iterate data of Inl e \<Rightarrow> Inl e | Inr ds \<Rightarrow> search_profiles ds profile_name)"

definition get_firmware_repository_profile :: "backend \<Rightarrow> string option \<Rightarrow> json io" where
  "get_firmware_repository_profile b profile_name =
     bind (invoke_request b GET (Uri PROFILE_URI) None) (\<lambda>resp.
       if success resp then
         (case profile_name of
            None \<Rightarrow> return (json_data resp)
          | Some n \<Rightarrow>
              if n \<noteq> [] then lift (search_profile_name (json_data resp) n)
              else return (json_data resp))
       else return (JList []))"

definition get_all_repository_profiles :: "backend \<Rightarrow> response io" where
  "get_all_repository_profiles b = invoke_request b GET (Uri PROFILE_URI) None"

subsection \<open>\<^verbatim>\<open>OMEVVBaselineProfile\<close>\<close>

text \<open>\<^verbatim>\<open>validate_repository_profile(self, repository_profile, module)\<close> has two
  positional parameters besides \<^verbatim>\<open>self\<close>. The second argument of the model is \<open>None\<close>
  when the call passes no second argument; Python then raises \<^verbatim>\<open>TypeError\<close> before the
  body runs. A response is an object without \<^verbatim>\<open>__bool__\<close>, so
  \<^verbatim>\<open>if not available_repo_profiles\<close> is never taken.\<close>

definition validate_repository_profile ::
    "backend \<Rightarrow> string option \<Rightarrow> module option \<Rightarrow> dict io" where
  "validate_repository_profile b repository_profile module_arg =
     (case module_arg of
        None \<Rightarrow> raise (TypeError (missing_argument ''validate_repository_profile'' ''module''))
      | Some m \<Rightarrow>
          bind (get_all_repository_profiles b) (\<lambda>available_repo_profiles.
          bind (lift (iterate (json_data available_repo_profiles))) (\<lambda>profiles.
          bind (lift (comprehend (\<lambda>profile.
                  case dict_get profile ''profileName'' of
                    Inl e \<Rightarrow> Inl e | Inr v \<Rightarrow> Inr (Some v)) profiles))
            (\<lambda>available_repo_profile_names.
               if opt_str repository_profile \<notin> set available_repo_profile_names then
                 return (fmap_of_list
                   [(''error'', JStr (INVALID_REPO_PROFILE_MSG repository_profile))])
               else return (fmap_of_list [(''success'', JBool True)])))))"

definition get_all_clusters :: "backend \<Rightarrow> string \<Rightarrow> response io" where
  "get_all_clusters b vcenter_uuid = invoke_request b GET (Uri (CLUSTER_URI vcenter_uuid)) None"

definition validate_cluster_names :: "backend \<Rightarrow> string list option \<Rightarrow> string \<Rightarrow> dict io" where
  "validate_cluster_names b cluster_names vcenter_uuid =
     bind (get_all_clusters b vcenter_uuid) (\<lambda>available_clusters.
     bind (lift (iterate (json_data available_clusters))) (\<lambda>clusters.
     bind (lift (comprehend (\<lambda>cluster.
             case dict_get cluster ''name'' of
               Inl e \<Rightarrow> Inl e | Inr v \<Rightarrow> Inr (Some v)) clusters))
       (\<lambda>available_cluster_names.
          case cluster_names of
            None \<Rightarrow> raise (TypeError ''NoneType object is not iterable'')
          | Some names \<Rightarrow>
              (let invalid_clusters =
                     filter (\<lambda>cluster. JStr cluster \<notin> set available_cluster_names) names
               in if invalid_clusters \<noteq> [] then
                    return (fmap_of_list
                      [(''error'', JStr (INVALID_CLUSTER_NAMES_MSG (join invalid_clusters)))])
                  else return (fmap_of_list [(''success'', JBool True)])))))"

text \<open>The comprehension
  \<^verbatim>\<open>[c['entityId'] for c in clusters if c['name'] in cluster_names]\<close>.\<close>

definition cluster_entity_ids :: "json \<Rightarrow> string list option \<Rightarrow> exn + json list" where
  "cluster_entity_ids clusters cluster_names =
     (case iterate clusters of
        Inl e \<Rightarrow> Inl e
      | Inr cs \<Rightarrow>
          comprehend (\<lambda>c.
            case subscript c ''name'' of
              Inl e \<Rightarrow> Inl e
            | Inr n \<Rightarrow>
                (case is_in n cluster_names of
                   Inl e \<Rightarrow> Inl e
                 | Inr False \<Rightarrow> Inr None
                 | Inr True \<Rightarrow>
                     (case subscript c ''entityId'' of
                        Inl e \<Rightarrow> Inl e | Inr i \<Rightarrow> Inr (Some i)))) cs)"

definition get_cluster_id :: "backend \<Rightarrow> string list option \<Rightarrow> string \<Rightarrow> json list io" where
  "get_cluster_id b cluster_names vcenter_uuid =
     bind (invoke_request b GET (Uri (CLUSTER_URI vcenter_uuid)) None) (\<lambda>clusters_resp.
       let clusters = (if success clusters_resp then json_data clusters_resp else JList [])
       in lift (cluster_entity_ids clusters cluster_names))"

definition get_group_ids_for_clusters ::
    "backend \<Rightarrow> string \<Rightarrow> string list option \<Rightarrow> json list io" where
  "get_group_ids_for_clusters b vcenter_uuid cluster_names =
     bind (invoke_request b GET (Uri (CLUSTER_URI vcenter_uuid)) None) (\<lambda>clusters_resp.
       let clusters = (if success clusters_resp then json_data clusters_resp else JList [])
       in bind (lift (cluster_entity_ids clusters cluster_names)) (\<lambda>cluster_ids.
            if cluster_ids \<noteq> [] then
              (let payload = JDict (fmap_of_list [(''clustIds'', JList cluster_ids)])
               in bind (invoke_request b POST (Uri (CLUSTER_IDS_URI vcenter_uuid)) (Some payload))
                    (\<lambda>group_resp.
                       if success group_resp then
                         bind (lift (iterate (json_data group_resp))) (\<lambda>gs.
                           lift (comprehend (\<lambda>g.
                             case subscript g ''groupId'' of
                               Inl e \<Rightarrow> Inl e | Inr i \<Rightarrow> Inr (Some i)) gs))
                       else return []))
            else return []))"

definition get_repo_id_by_name :: "backend \<Rightarrow> string option \<Rightarrow> json io" where
  "get_repo_id_by_name b repository_profile =
     bind (get_firmware_repository_profile b repository_profile) (\<lambda>repo_profile_info.
       if truthy repo_profile_info then lift (dict_get repo_profile_info ''id'')
       else return JNull)"

definition get_baseline_profiles :: "backend \<Rightarrow> string \<Rightarrow> json io" where
  "get_baseline_profiles b vcenter_uuid =
     bind (invoke_request b GET (Uri (BASELINE_PROFILE_URI vcenter_uuid)) None) (\<lambda>response.
       if success response then return (json_data response) else return (JList []))"

definition get_baseline_profile_by_id :: "backend \<Rightarrow> json \<Rightarrow> string \<Rightarrow> response io" where
  "get_baseline_profile_by_id b profile_id vcenter_uuid =
     invoke_request b GET (UriWithId (BASELINE_PROFILE_URI vcenter_uuid) profile_id) None"

text \<open>The loop of \<^verbatim>\<open>get_baseline_profile_by_name\<close>: the first profile whose \<^verbatim>\<open>name\<close>
  is the name, or \<^verbatim>\<open>{}\<close>.\<close>

fun find_profile :: "json list \<Rightarrow> string \<Rightarrow> exn + json" where
  "find_profile [] profile_name = Inr (JDict fmempty)"
| "find_profile (profile # profiles) profile_name =
     (case dict_get profile ''name'' of
        Inl e \<Rightarrow> Inl e
      | Inr v \<Rightarrow>
          if v = JStr profile_name then Inr profile else find_profile profiles profile_name)"

definition get_baseline_profile_by_name :: "backend \<Rightarrow> string \<Rightarrow> string \<Rightarrow> json io" where
  "get_baseline_profile_by_name b profile_name vcenter_uuid =
     bind (get_baseline_profiles b vcenter_uuid) (\<lambda>profiles.
     bind (lift (iterate profiles)) (\<lambda>ps.
       lift (find_profile ps profile_name)))"

definition get_current_job_schedule :: "backend \<Rightarrow> json \<Rightarrow> string \<Rightarrow> response io" where
  "get_current_job_schedule b profile_id vcenter_uuid =
     invoke_request b GET (UriWithId (DRIFT_URI vcenter_uuid) profile_id) None"

text \<open>A Python set holds hashable values only: a list or a dictionary raises
  \<^verbatim>\<open>TypeError\<close>. A set is modelled by a list without duplicates. \<^verbatim>\<open>list(s)\<close> enumerates
  a set in an order that Python leaves open; the model keeps the order of first
  occurrence.\<close>

fun hashable :: "json \<Rightarrow> bool" where
  "hashable (JList xs) = False"
| "hashable (JDict d) = False"
| "hashable _ = True"

definition hashed :: "json \<Rightarrow> exn + json option" where
  "hashed v = (if hashable v then Inr (Some v) else Inl (TypeError ''unhashable type''))"

text \<open>\<^verbatim>\<open>{group['omevv_groupID'] for group in existing_profile.get('clusterGroups', [])}\<close>.\<close>

definition current_group_ids_of :: "json \<Rightarrow> exn + json list" where
  "current_group_ids_of existing_profile =
     (case existing_profile of
        JDict d \<Rightarrow>
          (case iterate (case fmlookup d ''clusterGroups'' of None \<Rightarrow> JList [] | Some v \<Rightarrow> v) of
             Inl e \<Rightarrow> Inl e
           | Inr groups \<Rightarrow>
               (case comprehend (\<lambda>group.
                        case subscript group ''omevv_groupID'' of
                          Inl e \<Rightarrow> Inl e | Inr v \<Rightarrow> hashed v) groups of
                  Inl e \<Rightarrow> Inl e
                | Inr ids \<Rightarrow> Inr (remdups ids)))
      | _ \<Rightarrow> Inl (AttributeError (no_attribute ''object'' ''get'')))"

definition get_add_remove_group_ids ::
    "backend \<Rightarrow> json \<Rightarrow> string \<Rightarrow> string list option \<Rightarrow> (json list \<times> json list) io" where
  "get_add_remove_group_ids b existing_profile vcenter_uuid cluster_names =
     bind (lift (current_group_ids_of existing_profile)) (\<lambda>current_group_ids.
     bind (get_group_ids_for_clusters b vcenter_uuid cluster_names) (\<lambda>group_ids.
     bind (lift (comprehend hashed group_ids)) (\<lambda>hashed_ids.
       let new_group_ids = remdups hashed_ids;
           add_group_ids = filter (\<lambda>g. g \<notin> set current_group_ids) new_group_ids;
           remove_group_ids = filter (\<lambda>g. g \<notin> set new_group_ids) current_group_ids
       in return (add_group_ids, remove_group_ids))))"

text \<open>\<^verbatim>\<open>create_baseline_profile\<close> and \<^verbatim>\<open>modify_baseline_profile\<close> set an error message
  when a required value is missing, send the request all the same, and return both.\<close>

definition create_baseline_profile ::
    "backend \<Rightarrow> json \<Rightarrow> json \<Rightarrow> json \<Rightarrow> string \<Rightarrow> dict \<Rightarrow> (response \<times> json) io" where
  "create_baseline_profile b name firmware_repo_id group_ids vcenter_uuid payload =
     (let err_msg =
            (if \<not> truthy name \<or> \<not> truthy firmware_repo_id \<or> \<not> truthy group_ids then
               JStr ''Required parameters: name, firmware_repo_id, or group_ids are missing.''
             else JNull)
      in bind (invoke_request b POST (Uri (BASELINE_PROFILE_URI vcenter_uuid))
                 (Some (JDict payload)))
           (\<lambda>resp. return (resp, err_msg)))"

definition modify_baseline_profile ::
    "backend \<Rightarrow> json \<Rightarrow> string \<Rightarrow> dict \<Rightarrow> (response \<times> json) io" where
  "modify_baseline_profile b profile_id vcenter_uuid payload =
     (let err_msg =
            (if \<not> truthy profile_id \<or> vcenter_uuid = [] \<or> payload = fmempty then
               JStr ''Required parameters: profile_id, vcenter_uuid, or payload are missing.''
             else JNull)
      in bind (invoke_request b PATCH (UriWithId (BASELINE_PROFILE_URI vcenter_uuid) profile_id)
                 (Some (JDict payload)))
           (\<lambda>resp. return (resp, err_msg)))"

definition delete_baseline_profile :: "backend \<Rightarrow> json \<Rightarrow> string \<Rightarrow> response io" where
  "delete_baseline_profile b profile_id vcenter_uuid =
     invoke_request b DELETE (UriWithId (BASELINE_PROFILE_URI vcenter_uuid) profile_id) None"

section \<open>\<^verbatim>\<open>omevv_baseline_profile.py\<close>\<close>

definition SUCCESS_CREATION_MSG :: string where
  "SUCCESS_CREATION_MSG = ''Successfully created the baseline profile.''"

definition FAILED_CREATION_MSG :: string where
  "FAILED_CREATION_MSG = ''Unable to create the baseline profile.''"

definition SUCCESS_MODIFY_MSG :: string where
  "SUCCESS_MODIFY_MSG = ''Successfully modified the baseline profile.''"

definition FAILED_MODIFY_MSG :: string where
  "FAILED_MODIFY_MSG = ''Unable to modify the baseline profile.''"

definition SUCCESS_DELETION_MSG :: string where
  "SUCCESS_DELETION_MSG = ''Successfully deleted the baseline profile.''"

definition FAILED_DELETION_MSG :: string where
  "FAILED_DELETION_MSG = ''Unable to delete the baseline profile.''"

definition CHANGES_FOUND_MSG :: string where
  "CHANGES_FOUND_MSG = ''Changes found to be applied.''"

definition CHANGES_NOT_FOUND_MSG :: string where
  "CHANGES_NOT_FOUND_MSG = ''No changes found to be applied.''"

definition TIMEOUT_NEGATIVE_OR_ZERO_MSG :: string where
  "TIMEOUT_NEGATIVE_OR_ZERO_MSG =
     ''The value for the 'job_wait_timeout' parameter cannot be negative or zero.''"

text \<open>What a run is given besides the module: the REST client, and the two validators
  that \<^verbatim>\<open>validate_common_params\<close> imports from \<^verbatim>\<open>module_utils/utils.py\<close>, which is not
  among the two files. \<^verbatim>\<open>validate_job_wait(module)\<close> returns a value that is tested for
  truth; \<^verbatim>\<open>validate_time(time, module)\<close> returns, or ends the run (\<open>Some\<close>).\<close>

record env =
  rest_obj :: backend
  validate_job_wait :: "module \<Rightarrow> bool"
  validate_time :: "string option \<Rightarrow> module \<Rightarrow> abort option"

definition abort_with :: "abort \<Rightarrow> 'a io" where
  "abort_with a = (\<lambda>tr. (Inl a, tr))"

text \<open>A diff is the dictionary \<^verbatim>\<open>{"before": ..., "after": ...}\<close>.\<close>

definition mk_diff :: "dict \<Rightarrow> dict \<Rightarrow> json" where
  "mk_diff before after =
     JDict (fmap_of_list [(''before'', JDict before), (''after'', JDict after)])"

subsection \<open>\<^verbatim>\<open>BaselineProfile\<close>\<close>

text \<open>\<^verbatim>\<open>validate_common_params\<close> calls
  \<^verbatim>\<open>self.omevv_baseline_obj.validate_repository_profile(repository_profile)\<close>, with one
  argument.\<close>

definition validate_common_params :: "env \<Rightarrow> module \<Rightarrow> unit io" where
  "validate_common_params e m =
     (if validate_job_wait e m then
        exit_json ((kwargs (JStr TIMEOUT_NEGATIVE_OR_ZERO_MSG))\<lparr>failed := Some True\<rparr>)
      else
        (case validate_time e (p_time (params m)) m of
           Some a \<Rightarrow> abort_with a
         | None \<Rightarrow>
             bind (validate_repository_profile (rest_obj e)
                     (p_repository_profile (params m)) None) (\<lambda>repo_validation.
             bind (case fmlookup repo_validation ''error'' of
                     Some err \<Rightarrow> exit_json ((kwargs err)\<lparr>failed := Some True\<rparr>)
                   | None \<Rightarrow> return ()) (\<lambda>_.
             bind (validate_cluster_names (rest_obj e) (p_cluster (params m))
                     (p_vcenter_uuid (params m))) (\<lambda>cluster_validation.
               case fmlookup cluster_validation ''error'' of
                 Some err \<Rightarrow> exit_json ((kwargs err)\<lparr>failed := Some True\<rparr>)
               | None \<Rightarrow> return ())))))"

text \<open>The comprehension over \<^verbatim>\<open>zip(cluster_names, cluster_ids, group_ids)\<close> of the two
  \<^verbatim>\<open>diff_mode_check\<close> methods.\<close>

definition cluster_groups_of ::
    "string list option \<Rightarrow> json list \<Rightarrow> json list \<Rightarrow> exn + json list" where
  "cluster_groups_of cluster_names cluster_ids group_ids =
     (case cluster_names of
        None \<Rightarrow> Inl (TypeError ''NoneType object is not iterable'')
      | Some names \<Rightarrow>
          Inr (map (\<lambda>(cluster_name, cluster_id, group_id).
                 JDict (fmap_of_list
                   [(''clusterID'', cluster_id),
                    (''clusterName'', JStr cluster_name),
                    (''omevv_groupID'', group_id)]))
               (zip names (zip cluster_ids group_ids))))"

text \<open>The loop of \<^verbatim>\<open>perform_create_baseline_profile\<close> and
  \<^verbatim>\<open>perform_modify_baseline_profile\<close>:
  \<^verbatim>\<open>while profile_resp.json_data["status"] not in ["SUCCESSFUL", "FAILED"]:
      time.sleep(3); profile_resp = get_baseline_profile_by_id(profile_id, vcenter_uuid)\<close>.
  The loop has no bound; the result is \<open>None\<close> when it never ends.\<close>

partial_function (option) poll_status ::
    "backend \<Rightarrow> json \<Rightarrow> string \<Rightarrow> response \<Rightarrow> trace \<Rightarrow> ((abort + response) \<times> trace) option" where
  "poll_status b profile_id vcenter_uuid profile_resp tr =
     (case subscript (json_data profile_resp) ''status'' of
        Inl e \<Rightarrow> Some (Inl (Raise e), tr)
      | Inr status \<Rightarrow>
          if status \<notin> set [JStr ''SUCCESSFUL'', JStr ''FAILED''] then
            (case bind (sleep 3) (\<lambda>_. get_baseline_profile_by_id b profile_id vcenter_uuid) tr of
               (Inl a, tr') \<Rightarrow> Some (Inl a, tr')
             | (Inr profile_resp', tr') \<Rightarrow> poll_status b profile_id vcenter_uuid profile_resp' tr')
          else Some (Inr profile_resp, tr))"

subsection \<open>\<^verbatim>\<open>CreateBaselineProfile\<close>\<close>

definition Create_diff_mode_check :: "module \<Rightarrow> backend \<Rightarrow> dict \<Rightarrow> json io" where
  "Create_diff_mode_check m b payload =
     (let cluster_names = p_cluster (params m);
          vcenter_uuid = p_vcenter_uuid (params m);
          description = p_description (params m)
      in bind (get_cluster_id b cluster_names vcenter_uuid) (\<lambda>cluster_ids.
         bind (get_group_ids_for_clusters b vcenter_uuid cluster_names) (\<lambda>group_ids.
         bind (lift (cluster_groups_of cluster_names cluster_ids group_ids)) (\<lambda>cluster_groups.
           let filtered_payload = fmap_of_list
                 [(''name'', get payload ''name''),
                  (''firmwareRepoId'', get payload ''firmwareRepoId''),
                  (''firmwareRepoName'', opt_str (p_repository_profile (params m))),
                  (''clusterGroups'', JList cluster_groups),
                  (''description'', opt_str description),
                  (''jobSchedule'', get payload ''jobSchedule'')]
           in return (mk_diff fmempty (drop_none filtered_payload))))))"

text \<open>What \<^verbatim>\<open>perform_create_baseline_profile\<close> does once the loop has ended.\<close>

definition create_outcome :: "module \<Rightarrow> backend \<Rightarrow> dict \<Rightarrow> response \<Rightarrow> unit io" where
  "create_outcome m b payload profile_resp =
     bind (Create_diff_mode_check m b payload) (\<lambda>d.
     bind (lift (subscript (json_data profile_resp) ''status'')) (\<lambda>status.
       if diff_mode m \<and> status = JStr ''SUCCESSFUL'' then
         exit_json ((kwargs (JStr SUCCESS_CREATION_MSG))
           \<lparr>baseline_profile_info := Some (json_data profile_resp), diff := Some d,
            changed := Some True\<rparr>)
       else if status = JStr ''SUCCESSFUL'' then
         exit_json ((kwargs (JStr SUCCESS_CREATION_MSG))
           \<lparr>baseline_profile_info := Some (json_data profile_resp), changed := Some True\<rparr>)
       else
         exit_json ((kwargs (JStr FAILED_CREATION_MSG))
           \<lparr>baseline_profile_info := Some (json_data profile_resp), failed := Some True\<rparr>)))"

definition perform_create_baseline_profile ::
    "module \<Rightarrow> backend \<Rightarrow> dict \<Rightarrow> trace \<Rightarrow> ((abort + unit) \<times> trace) option" where
  "perform_create_baseline_profile m b payload tr =
     (let vcenter_uuid = p_vcenter_uuid (params m)
      in case create_baseline_profile b (get payload ''name'') (get payload ''firmwareRepoId'')
                (get payload ''groupIds'') vcenter_uuid payload tr of
           (Inl a, tr1) \<Rightarrow> Some (Inl a, tr1)
         | (Inr (response, err_msg), tr1) \<Rightarrow>
             if success response then
               (case get_baseline_profile_by_id b (json_data response) vcenter_uuid tr1 of
                  (Inl a, tr2) \<Rightarrow> Some (Inl a, tr2)
                | (Inr profile_resp, tr2) \<Rightarrow>
                    (case poll_status b (json_data response) vcenter_uuid profile_resp tr2 of
                       None \<Rightarrow> None
                     | Some (Inl a, tr3) \<Rightarrow> Some (Inl a, tr3)
                     | Some (Inr final_resp, tr3) \<Rightarrow>
                         Some (create_outcome m b payload final_resp tr3)))
             else
               Some (exit_json ((kwargs (JStr FAILED_CREATION_MSG))\<lparr>failed := Some True\<rparr>) tr1))"

text \<open>\<^verbatim>\<open>CreateBaselineProfile.execute\<close> ends with \<^verbatim>\<open>self.create_baseline_profile(payload)\<close>.
  The class and its base define \<^verbatim>\<open>get_cluster_groups\<close>, \<^verbatim>\<open>diff_mode_check\<close>,
  \<^verbatim>\<open>perform_create_baseline_profile\<close>, \<^verbatim>\<open>validate_common_params\<close> and \<^verbatim>\<open>execute\<close>, and
  \<^verbatim>\<open>__init__\<close> sets \<^verbatim>\<open>module\<close>, \<^verbatim>\<open>obj\<close>, \<^verbatim>\<open>omevv_baseline_obj\<close>, \<^verbatim>\<open>omevv_profile_obj\<close> and
  \<^verbatim>\<open>existing_profile\<close>: the object has no attribute \<^verbatim>\<open>create_baseline_profile\<close>, and
  the lookup raises \<^verbatim>\<open>AttributeError\<close>.\<close>

definition Create_execute :: "env \<Rightarrow> module \<Rightarrow> unit io" where
  "Create_execute e m =
     (let b = rest_obj e; p = params m
      in bind (validate_common_params e m) (\<lambda>_.
         bind (get_repo_id_by_name b (p_repository_profile p)) (\<lambda>firmware_repo_id.
         bind (get_group_ids_for_clusters b (p_vcenter_uuid p) (p_cluster p)) (\<lambda>group_ids.
           let job_schedule = create_job_schedule (p_days p) (p_time p);
               payload0 = fmap_of_list
                 [(''name'', JStr (p_name p)),
                  (''firmwareRepoId'', firmware_repo_id),
                  (''groupIds'', JList group_ids)];
               payload1 = (case p_description p of
                             Some description \<Rightarrow> fmupd ''description'' (JStr description) payload0
                           | None \<Rightarrow> payload0);
               payload = (if truthy job_schedule then fmupd ''jobSchedule'' job_schedule payload1
                          else payload1)
           in if check_mode m \<and> diff_mode m then
                bind (Create_diff_mode_check m b payload) (\<lambda>d.
                  exit_json ((kwargs (JStr CHANGES_FOUND_MSG))
                    \<lparr>diff := Some d, changed := Some True\<rparr>))
              else if check_mode m then
                exit_json ((kwargs (JStr CHANGES_FOUND_MSG))\<lparr>changed := Some True\<rparr>)
              else
                raise (AttributeError (no_attribute ''CreateBaselineProfile'' ''create_baseline_profile''))))))"

subsection \<open>\<^verbatim>\<open>ModifyBaselineProfile\<close>\<close>

text \<open>The six keys of \<^verbatim>\<open>modified_payload\<close>.\<close>

definition modified_keys :: "string list" where
  "modified_keys = [''name'', ''firmwareRepoId'', ''firmwareRepoName'', ''clusterGroups'',
     ''description'', ''jobSchedule'']"

text \<open>\<^verbatim>\<open>ModifyBaselineProfile.diff_mode_check(payload)\<close> returns the pair of \<^verbatim>\<open>before\<close>
  and \<^verbatim>\<open>after\<close>. The default of
  \<^verbatim>\<open>params.get('description', self.existing_profile.get("description"))\<close> is evaluated
  (and may raise) but never taken.\<close>

definition Modify_diff_mode_check ::
    "module \<Rightarrow> backend \<Rightarrow> json \<Rightarrow> dict \<Rightarrow> (dict \<times> dict) io" where
  "Modify_diff_mode_check m b existing_profile payload =
     (let cluster_names = p_cluster (params m);
          vcenter_uuid = p_vcenter_uuid (params m)
      in bind (lift (dict_get existing_profile ''description'')) (\<lambda>_.
         let description = p_description (params m)
         in bind (get_cluster_id b cluster_names vcenter_uuid) (\<lambda>cluster_ids.
            bind (get_group_ids_for_clusters b vcenter_uuid cluster_names) (\<lambda>group_ids.
            bind (lift (cluster_groups_of cluster_names cluster_ids group_ids)) (\<lambda>cluster_groups.
            bind (lift (dict_get existing_profile ''driftJobId'')) (\<lambda>drift_job_id.
            bind (get_current_job_schedule b drift_job_id vcenter_uuid) (\<lambda>old_job_schedule_resp.
            bind (lift (dict_get (json_data old_job_schedule_resp) ''schedule''))
              (\<lambda>old_job_schedule.
            bind (lift (subscript (JDict payload) ''jobSchedule'')) (\<lambda>new_job_schedule.
              let modified_payload = fmap_of_list
                    [(''name'', JStr (p_name (params m))),
                     (''firmwareRepoId'', get payload ''firmwareRepoId''),
                     (''firmwareRepoName'', opt_str (p_repository_profile (params m))),
                     (''clusterGroups'', JList cluster_groups),
                     (''description'', opt_str description),
                     (''jobSchedule'', new_job_schedule)]
              in case existing_profile of
                   JDict existing \<Rightarrow>
                     (let filtered_existing_profile =
                            fmupd ''jobSchedule'' old_job_schedule
                              (fmfilter (\<lambda>k. k \<in> set modified_keys) existing)
                      in if filtered_existing_profile = modified_payload then
                           return (fmempty, fmempty)
                         else
                           return (drop_none filtered_existing_profile,
                                   drop_none modified_payload))
                 | _ \<Rightarrow> raise (AttributeError (no_attribute ''object'' ''items'')))))))))))"

definition modify_outcome :: "module \<Rightarrow> json \<Rightarrow> response \<Rightarrow> unit io" where
  "modify_outcome m d profile_resp =
     bind (lift (subscript (json_data profile_resp) ''status'')) (\<lambda>status.
       if diff_mode m \<and> status = JStr ''SUCCESSFUL'' then
         exit_json ((kwargs (JStr SUCCESS_MODIFY_MSG))
           \<lparr>baseline_profile_info := Some (json_data profile_resp), diff := Some d,
            changed := Some True\<rparr>)
       else if status = JStr ''SUCCESSFUL'' then
         exit_json ((kwargs (JStr SUCCESS_MODIFY_MSG))
           \<lparr>baseline_profile_info := Some (json_data profile_resp), changed := Some True\<rparr>)
       else
         exit_json ((kwargs (JStr FAILED_MODIFY_MSG))
           \<lparr>baseline_profile_info := Some (json_data profile_resp), failed := Some True\<rparr>))"

definition perform_modify_baseline_profile ::
    "module \<Rightarrow> backend \<Rightarrow> json \<Rightarrow> dict \<Rightarrow> json \<Rightarrow> trace \<Rightarrow> ((abort + unit) \<times> trace) option" where
  "perform_modify_baseline_profile m b existing_profile payload diff_before_modify tr =
     (let vcenter_uuid = p_vcenter_uuid (params m)
      in case bind (lift (dict_get existing_profile ''id'')) (\<lambda>profile_id.
                bind (modify_baseline_profile b profile_id vcenter_uuid payload)
                  (\<lambda>(response, err_msg). return (profile_id, response))) tr of
           (Inl a, tr1) \<Rightarrow> Some (Inl a, tr1)
         | (Inr (profile_id, response), tr1) \<Rightarrow>
             if success response then
               (case get_baseline_profile_by_id b profile_id vcenter_uuid tr1 of
                  (Inl a, tr2) \<Rightarrow> Some (Inl a, tr2)
                | (Inr profile_resp, tr2) \<Rightarrow>
                    (case poll_status b profile_id vcenter_uuid profile_resp tr2 of
                       None \<Rightarrow> None
                     | Some (Inl a, tr3) \<Rightarrow> Some (Inl a, tr3)
                     | Some (Inr final_resp, tr3) \<Rightarrow>
                         Some (modify_outcome m diff_before_modify final_resp tr3)))
             else
               Some (exit_json ((kwargs (JStr FAILED_MODIFY_MSG))\<lparr>failed := Some True\<rparr>) tr1))"

text \<open>\<^verbatim>\<open>ModifyBaselineProfile.execute\<close> ends with
  \<^verbatim>\<open>self.modify_baseline_profile(new_payload, diff)\<close>; the class and its base define
  \<^verbatim>\<open>diff_mode_check\<close>, \<^verbatim>\<open>perform_modify_baseline_profile\<close>, \<^verbatim>\<open>validate_common_params\<close>
  and \<^verbatim>\<open>execute\<close>. The keys \<^verbatim>\<open>configurationRepoId\<close> and \<^verbatim>\<open>driverRepoId\<close> are no
  parameters of the module, so their default \<^verbatim>\<open>0\<close> is taken.\<close>

definition Modify_execute :: "env \<Rightarrow> module \<Rightarrow> json \<Rightarrow> unit io" where
  "Modify_execute e m existing_profile =
     (let b = rest_obj e; p = params m
      in bind (validate_common_params e m) (\<lambda>_.
         bind (get_add_remove_group_ids b existing_profile (p_vcenter_uuid p) (p_cluster p))
           (\<lambda>(add_group_ids, remove_group_ids).
         let job_schedule = create_job_schedule (p_days p) (p_time p);
             repository_name = p_repository_profile p
         in bind (get_repo_id_by_name b repository_name) (\<lambda>firmware_repo_id.
            bind (lift (dict_get existing_profile ''description'')) (\<lambda>_.
            let new_payload = fmap_of_list
                  [(''addgroupIds'', JList add_group_ids),
                   (''removeGroupIds'', JList remove_group_ids),
                   (''jobSchedule'', job_schedule),
                   (''description'', opt_str (p_description p)),
                   (''configurationRepoId'', JInt 0),
                   (''firmwareRepoId'', firmware_repo_id),
                   (''driverRepoId'', JInt 0),
                   (''modifiedBy'', JStr ''Administrator@VSPHERE.LOCAL'')]
            in bind (Modify_diff_mode_check m b existing_profile new_payload)
                 (\<lambda>(before, after).
                    if before = fmempty \<and> after = fmempty then
                      exit_json ((kwargs (JStr CHANGES_NOT_FOUND_MSG))\<lparr>changed := Some False\<rparr>)
                    else if check_mode m \<and> diff_mode m then
                      exit_json ((kwargs (JStr CHANGES_FOUND_MSG))
                        \<lparr>diff := Some (mk_diff before after), changed := Some True\<rparr>)
                    else if check_mode m then
                      exit_json ((kwargs (JStr CHANGES_FOUND_MSG))\<lparr>changed := Some True\<rparr>)
                    else
                      raise (AttributeError (no_attribute ''ModifyBaselineProfile'' ''modify_baseline_profile''))))))))"

subsection \<open>\<^verbatim>\<open>DeleteBaselineProfile\<close>\<close>

definition Delete_diff_mode_check :: "module \<Rightarrow> json \<Rightarrow> exn + json" where
  "Delete_diff_mode_check m payload =
     (case subscript payload ''name'' of Inl e \<Rightarrow> Inl e | Inr v_name \<Rightarrow>
      case subscript payload ''description'' of Inl e \<Rightarrow> Inl e | Inr v_description \<Rightarrow>
      case subscript payload ''firmwareRepoId'' of Inl e \<Rightarrow> Inl e | Inr v_repo_id \<Rightarrow>
      case subscript payload ''firmwareRepoName'' of Inl e \<Rightarrow> Inl e | Inr v_repo_name \<Rightarrow>
      case subscript payload ''clusterGroups'' of Inl e \<Rightarrow> Inl e | Inr v_groups \<Rightarrow>
        (let diff_dict = fmap_of_list
               [(''name'', v_name),
                (''description'', v_description),
                (''firmwareRepoId'', v_repo_id),
                (''firmwareRepoName'', v_repo_name),
                (''clusterGroups'', v_groups)]
         in if diff_mode m then Inr (mk_diff diff_dict fmempty) else Inr (JDict fmempty)))"

definition perform_delete_baseline_profile :: "module \<Rightarrow> backend \<Rightarrow> json \<Rightarrow> unit io" where
  "perform_delete_baseline_profile m b profile_resp =
     bind (lift (Delete_diff_mode_check m profile_resp)) (\<lambda>d.
     bind (lift (subscript profile_resp ''id'')) (\<lambda>profile_id.
     bind (delete_baseline_profile b profile_id (p_vcenter_uuid (params m))) (\<lambda>resp.
       if success resp then
         (if diff_mode m then
            exit_json ((kwargs (JStr SUCCESS_DELETION_MSG))
              \<lparr>baseline_profile_info := Some (JDict fmempty), diff := Some d,
               changed := Some True\<rparr>)
          else
            exit_json ((kwargs (JStr SUCCESS_DELETION_MSG))
              \<lparr>baseline_profile_info := Some (JDict fmempty), changed := Some True\<rparr>))
       else exit_json ((kwargs (JStr FAILED_DELETION_MSG))\<lparr>failed := Some True\<rparr>))))"

text \<open>\<^verbatim>\<open>DeleteBaselineProfile.execute\<close>: a chain of \<^verbatim>\<open>if\<close> statements, each of which ends
  the run. With an existing profile and no check mode it calls
  \<^verbatim>\<open>self.delete_baseline_profile(profile_exists)\<close>; the class and its base define
  \<^verbatim>\<open>diff_mode_check\<close>, \<^verbatim>\<open>perform_delete_baseline_profile\<close>, \<^verbatim>\<open>validate_common_params\<close>
  and \<^verbatim>\<open>execute\<close>, and \<^verbatim>\<open>__init__\<close> sets \<^verbatim>\<open>profile_name\<close> besides the attributes of the
  base.\<close>

definition Delete_execute :: "env \<Rightarrow> module \<Rightarrow> string \<Rightarrow> unit io" where
  "Delete_execute e m profile_name =
     bind (get_baseline_profile_by_name (rest_obj e) profile_name (p_vcenter_uuid (params m)))
       (\<lambda>profile_exists.
          if truthy profile_exists \<and> check_mode m \<and> diff_mode m then
            bind (lift (Delete_diff_mode_check m profile_exists)) (\<lambda>d.
              exit_json ((kwargs (JStr CHANGES_FOUND_MSG))\<lparr>diff := Some d, changed := Some True\<rparr>))
          else if \<not> truthy profile_exists \<and> check_mode m then
            exit_json ((kwargs (JStr CHANGES_NOT_FOUND_MSG))\<lparr>changed := Some False\<rparr>)
          else if \<not> truthy profile_exists \<and> \<not> check_mode m \<and> diff_mode m then
            exit_json ((kwargs (JStr CHANGES_NOT_FOUND_MSG))
              \<lparr>diff := Some (mk_diff fmempty fmempty), changed := Some False\<rparr>)
          else if \<not> truthy profile_exists \<and> \<not> check_mode m then
            exit_json ((kwargs (JStr CHANGES_NOT_FOUND_MSG))\<lparr>changed := Some False\<rparr>)
          else if truthy profile_exists \<and> \<not> check_mode m then
            raise (AttributeError (no_attribute ''DeleteBaselineProfile'' ''delete_baseline_profile''))
          else if truthy profile_exists \<and> check_mode m then
            exit_json ((kwargs (JStr CHANGES_FOUND_MSG))\<lparr>changed := Some True\<rparr>)
          else return ())"

subsection \<open>\<^verbatim>\<open>main\<close>\<close>

text \<open>The body of the \<^verbatim>\<open>try\<close> statement.\<close>

definition main_body :: "env \<Rightarrow> module \<Rightarrow> unit io" where
  "main_body e m =
     (let profile_name = p_name (params m);
          vcenter_uuid = p_vcenter_uuid (params m)
      in case p_state (params m) of
           present \<Rightarrow>
             bind (get_baseline_profile_by_name (rest_obj e) profile_name vcenter_uuid)
               (\<lambda>existing_profile.
                  if truthy existing_profile then Modify_execute e m existing_profile
                  else Create_execute e m)
         | absent \<Rightarrow> Delete_execute e m profile_name)"

text \<open>How a run ends: by \<^verbatim>\<open>exit_json\<close>, by an exception that leaves \<^verbatim>\<open>main\<close>, or by
  \<^verbatim>\<open>main\<close> returning.\<close>

datatype outcome = Exited exit_kwargs | Uncaught exn | Returned

text \<open>\<^verbatim>\<open>str(err)\<close>.\<close>

fun str_of :: "exn \<Rightarrow> string" where
  "str_of (HTTPError code body) = ''HTTP Error''"
| "str_of (URLError s) = s"
| "str_of (ConnectionError s) = s"
| "str_of (IOError s) = s"
| "str_of (ValueError s) = s"
| "str_of (TypeError s) = s"
| "str_of (AttributeError s) = s"
| "str_of (IndexError s) = s"
| "str_of (KeyError k) = [CHR 0x27] @ k @ [CHR 0x27]"
| "str_of (OSError s) = s"
| "str_of (OtherException s) = s"

text \<open>\<^verbatim>\<open>s in code\<close> for a string \<^verbatim>\<open>s\<close>: a substring test on a string, membership in a
  list, a key test on a dictionary, \<^verbatim>\<open>TypeError\<close> on anything else.\<close>

fun contains :: "string \<Rightarrow> json \<Rightarrow> exn + bool" where
  "contains s (JStr t) = Inr (sublist s t)"
| "contains s (JList xs) = Inr (JStr s \<in> set xs)"
| "contains s (JDict d) = Inr (fmlookup d s \<noteq> None)"
| "contains s _ = Inl (TypeError ''argument is not iterable'')"

text \<open>The handler of \<^verbatim>\<open>HTTPError\<close>. An exception raised inside a handler leaves
  \<^verbatim>\<open>main\<close>.\<close>

definition handle_http_error :: "module \<Rightarrow> int \<Rightarrow> json option \<Rightarrow> outcome" where
  "handle_http_error m code body =
     (case body of
        None \<Rightarrow> Uncaught (ValueError ''Expecting value'')
      | Some loaded \<Rightarrow>
          if code = 500 then Exited ((kwargs loaded)\<lparr>failed := Some True\<rparr>)
          else
            (case dict_get loaded ''errorCode'' of
               Inl err \<Rightarrow> Uncaught err
             | Inr error_code \<Rightarrow>
                 (case dict_get loaded ''message'' of
                    Inl err \<Rightarrow> Uncaught err
                  | Inr message \<Rightarrow>
                      (case contains ''18001'' error_code of
                         Inl err \<Rightarrow> Uncaught err
                       | Inr is_18001 \<Rightarrow>
                           if is_18001 \<and> check_mode m then
                             Exited (kwargs (JStr CHANGES_NOT_FOUND_MSG))
                           else
                             (case contains ''500'' error_code of
                                Inl err \<Rightarrow> Uncaught err
                              | Inr is_500 \<Rightarrow>
                                  if is_500 then Exited ((kwargs message)\<lparr>skipped := Some True\<rparr>)
                                  else Exited ((kwargs message)
                                         \<lparr>error_info := Some loaded, failed := Some True\<rparr>))))))"

text \<open>The \<^verbatim>\<open>except\<close> clauses of \<^verbatim>\<open>main\<close>, in their order.\<close>

fun handle :: "module \<Rightarrow> exn \<Rightarrow> outcome" where
  "handle m (HTTPError code body) = handle_http_error m code body"
| "handle m (URLError s) = Exited ((kwargs (JStr s))\<lparr>unreachable := Some True\<rparr>)"
| "handle m (OtherException s) = Uncaught (OtherException s)"
| "handle m err = Exited ((kwargs (JStr (str_of err)))\<lparr>failed := Some True\<rparr>)"

definition main :: "env \<Rightarrow> module \<Rightarrow> outcome \<times> trace" where
  "main e m =
     (case main_body e m [] of
        (Inr u, tr) \<Rightarrow> (Returned, tr)
      | (Inl (Exit kw), tr) \<Rightarrow> (Exited kw, tr)
      | (Inl (Raise err), tr) \<Rightarrow> (handle m err, tr))"

text \<open>The requests that change a baseline profile or anything else on the backend:
  those with method \<^verbatim>\<open>POST\<close>, \<^verbatim>\<open>PATCH\<close> or \<^verbatim>\<open>DELETE\<close>.\<close>

fun mutating :: "event \<Rightarrow> bool" where
  "mutating (Request POST u body) = True"
| "mutating (Request PATCH u body) = True"
| "mutating (Request DELETE u body) = True"
| "mutating _ = False"

section \<open>Example data and auxiliary notions\<close>

text \<open>The parameters of the first example of the module's documentation, for one
  cluster and every day of the week.\<close>

definition example_params :: params where
  "example_params =
     \<lparr>p_state = present, p_name = ''profile-1'', p_cluster = Some [''cluster-1''],
      p_description = Some ''baseline'', p_days = Some [''all''], p_time = Some ''08:00'',
      p_repository_profile = Some ''repository-profile'', p_job_wait = True,
      p_job_wait_timeout = 1200, p_vcenter_uuid = ''uuid''\<rparr>"

definition example_module :: module where
  "example_module = \<lparr>params = example_params, check_mode = False, diff_mode = False\<rparr>"

text \<open>A baseline profile as the backend lists it, with the values of the example
  parameters.\<close>

definition example_profile :: json where
  "example_profile = JDict (fmap_of_list
     [(''id'', JInt 1),
      (''name'', JStr ''profile-1''),
      (''description'', JStr ''baseline''),
      (''firmwareRepoId'', JInt 5),
      (''firmwareRepoName'', JStr ''repository-profile''),
      (''clusterGroups'', JList [JDict (fmap_of_list
         [(''clusterID'', JInt 10), (''clusterName'', JStr ''cluster-1''),
          (''omevv_groupID'', JInt 7)])]),
      (''driftJobId'', JInt 99),
      (''status'', JStr ''SUCCESSFUL'')])"

text \<open>A backend without state: it lists the given baseline profiles, one cluster and
  one repository profile, resolves the cluster to one group, and reports the schedule of
  the example as the current one.\<close>

definition ok :: "json \<Rightarrow> exn + response" where
  "ok j = Inr \<lparr>success = True, json_data = j\<rparr>"

fun example_answer :: "json list \<Rightarrow> event \<Rightarrow> exn + response" where
  "example_answer profiles (Request GET (Uri u) body) =
     (if u = BASELINE_PROFILE_URI ''uuid'' then ok (JList profiles)
      else if u = CLUSTER_URI ''uuid'' then
        ok (JList [JDict (fmap_of_list [(''entityId'', JInt 10), (''name'', JStr ''cluster-1'')])])
      else if u = PROFILE_URI then
        ok (JList [JDict (fmap_of_list
              [(''profileName'', JStr ''repository-profile''), (''id'', JInt 5)])])
      else Inl (HTTPError 404 None))"
| "example_answer profiles (Request GET (UriWithId u i) body) =
     (if u = DRIFT_URI ''uuid'' then
        ok (JDict (fmap_of_list
              [(''schedule'', schedule True True True True True True True ''08:00'')]))
      else ok example_profile)"
| "example_answer profiles (Request POST u body) =
     ok (JList [JDict (fmap_of_list [(''groupId'', JInt 7)])])"
| "example_answer profiles ev = ok JNull"

definition example_backend :: "json list \<Rightarrow> backend" where
  "example_backend profiles tr = example_answer profiles (last tr)"

text \<open>A backend that cannot be reached: every request raises \<^verbatim>\<open>URLError\<close>.\<close>

definition unreachable_backend :: backend where
  "unreachable_backend tr = Inl (URLError ''<urlopen error [Errno 111] Connection refused>'')"

text \<open>Modelled from the spec: \<^verbatim>\<open>validate_job_wait\<close> of \<^verbatim>\<open>module_utils/utils.py\<close>, which is
  not among the source files. The message that \<^verbatim>\<open>validate_common_params\<close> gives for its
  result says that \<^verbatim>\<open>job_wait_timeout\<close> cannot be negative or zero, and the option is
  documented to apply when \<^verbatim>\<open>job_wait\<close> is true. The time validator of the examples
  accepts every time.\<close>

definition job_wait_check :: "module \<Rightarrow> bool" where
  "job_wait_check m = (p_job_wait (params m) \<and> p_job_wait_timeout (params m) \<le> 0)"

definition time_check :: "string option \<Rightarrow> module \<Rightarrow> abort option" where
  "time_check t m = None"

definition example_env :: "backend \<Rightarrow> env" where
  "example_env b = \<lparr>rest_obj = b, validate_job_wait = job_wait_check, validate_time = time_check\<rparr>"

text \<open>The request that lists the baseline profiles of a vCenter.\<close>

definition listing :: "string \<Rightarrow> event" where
  "listing u = Request GET (Uri (BASELINE_PROFILE_URI u)) None"

definition absent_module :: module where
  "absent_module = example_module\<lparr>params := example_params\<lparr>p_state := absent\<rparr>\<rparr>"

definition timeout_module :: module where
  "timeout_module = example_module\<lparr>params := example_params\<lparr>p_job_wait_timeout := 0\<rparr>\<rparr>"

fun is_delete :: "event \<Rightarrow> bool" where
  "is_delete (Request DELETE u body) = True"
| "is_delete _ = False"

definition absent_run :: "bool \<Rightarrow> bool \<Rightarrow> outcome \<times> trace" where
  "absent_run check d =
     main (example_env (example_backend [])) (absent_module\<lparr>check_mode := check, diff_mode := d\<rparr>)"

text \<open>Notions for the polling loop: the request that fetches a profile by its id; a
  backend that answers the fetches made after a trace with the given responses in turn,
  each fetch after a sleep of 3 (\<open>plays\<close>) or the first one at once (\<open>fetched\<close>); the
  events of \<open>n\<close> fetches; and the status of a snapshot.\<close>

definition fetch :: "string \<Rightarrow> json \<Rightarrow> event" where
  "fetch u i = Request GET (UriWithId (BASELINE_PROFILE_URI u) i) None"

fun plays :: "backend \<Rightarrow> string \<Rightarrow> json \<Rightarrow> trace \<Rightarrow> response list \<Rightarrow> bool" where
  "plays b u i tr [] = True"
| "plays b u i tr (r # rs) =
     (b (tr @ [Sleep 3, fetch u i]) = Inr r \<and> plays b u i (tr @ [Sleep 3, fetch u i]) rs)"

fun fetched :: "backend \<Rightarrow> string \<Rightarrow> json \<Rightarrow> trace \<Rightarrow> response list \<Rightarrow> bool" where
  "fetched b u i tr [] = True"
| "fetched b u i tr (r # rs) =
     (b (tr @ [fetch u i]) = Inr r \<and> plays b u i (tr @ [fetch u i]) rs)"

definition naps :: "string \<Rightarrow> json \<Rightarrow> nat \<Rightarrow> trace" where
  "naps u i n = concat (replicate n [Sleep 3, fetch u i])"

definition fetches :: "string \<Rightarrow> json \<Rightarrow> nat \<Rightarrow> trace" where
  "fetches u i n = fetch u i # naps u i (n - 1)"

definition has_status :: "response \<Rightarrow> string \<Rightarrow> bool" where
  "has_status r s = (subscript (json_data r) ''status'' = Inr (JStr s))"

definition pending :: "response \<Rightarrow> bool" where
  "pending r = (case subscript (json_data r) ''status'' of
                  Inl err \<Rightarrow> False
                | Inr s \<Rightarrow> s \<noteq> JStr ''SUCCESSFUL'' \<and> s \<noteq> JStr ''FAILED'')"

definition create_request :: "string \<Rightarrow> dict \<Rightarrow> event" where
  "create_request u payload = Request POST (Uri (BASELINE_PROFILE_URI u)) (Some (JDict payload))"

definition modify_request :: "string \<Rightarrow> json \<Rightarrow> dict \<Rightarrow> event" where
  "modify_request u i payload =
     Request PATCH (UriWithId (BASELINE_PROFILE_URI u) i) (Some (JDict payload))"

text \<open>A backend that accepts a submission with the id 1 and answers the \<open>n\<close>-th fetch
  with a snapshot of the \<open>n\<close>-th status of a list.\<close>

fun is_fetch :: "event \<Rightarrow> bool" where
  "is_fetch (Request GET (UriWithId u i) body) = True"
| "is_fetch _ = False"

definition snapshot :: "string \<Rightarrow> response" where
  "snapshot s = \<lparr>success = True,
     json_data = JDict (fmap_of_list [(''id'', JInt 1), (''status'', JStr s)])\<rparr>"

fun script_answer :: "string list \<Rightarrow> nat \<Rightarrow> event \<Rightarrow> exn + response" where
  "script_answer sts n (Request GET (UriWithId u i) body) = Inr (snapshot (sts ! (n - 1)))"
| "script_answer sts n (Request POST (Uri u) body) =
     (if u = CLUSTER_IDS_URI ''uuid'' then
        ok (JList [JDict (fmap_of_list [(''groupId'', JInt 7)])])
      else ok (JInt 1))"
| "script_answer sts n ev = example_answer [] ev"

definition status_backend :: "string list \<Rightarrow> backend" where
  "status_backend sts tr = script_answer sts (length (filter is_fetch tr)) (last tr)"

definition example_payload :: dict where
  "example_payload = fmap_of_list
     [(''name'', JStr ''profile-1''), (''firmwareRepoId'', JInt 5),
      (''groupIds'', JList [JInt 7]), (''description'', JStr ''baseline''),
      (''jobSchedule'', schedule True True True True True True True ''08:00'')]"

definition example_modify_payload :: dict where
  "example_modify_payload = fmap_of_list
     [(''addgroupIds'', JList []), (''removeGroupIds'', JList []),
      (''jobSchedule'', schedule True True True True True True True ''08:00''),
      (''description'', JStr ''baseline''), (''configurationRepoId'', JInt 0),
      (''firmwareRepoId'', JInt 5), (''driverRepoId'', JInt 0),
      (''modifiedBy'', JStr ''Administrator@VSPHERE.LOCAL'')]"

definition example_create_diff :: json where
  "example_create_diff = mk_diff fmempty (fmap_of_list
     [(''name'', JStr ''profile-1''), (''firmwareRepoId'', JInt 5),
      (''firmwareRepoName'', JStr ''repository-profile''),
      (''clusterGroups'', JList [JDict (fmap_of_list
         [(''clusterID'', JInt 10), (''clusterName'', JStr ''cluster-1''),
          (''omevv_groupID'', JInt 7)])]),
      (''description'', JStr ''baseline''),
      (''jobSchedule'', schedule True True True True True True True ''08:00'')])"

definition cluster_lookups :: trace where
  "cluster_lookups =
     [Request GET (Uri (CLUSTER_URI ''uuid'')) None,
      Request GET (Uri (CLUSTER_URI ''uuid'')) None,
      Request POST (Uri (CLUSTER_IDS_URI ''uuid''))
        (Some (JDict (fmap_of_list [(''clustIds'', JList [JInt 10])])))]"

text \<open>A backend that accepts the submission and answers the fetches like
  \<open>status_backend\<close>, but whose listings (of clusters, of repository profiles, of
  baseline profiles) raise \<^verbatim>\<open>URLError\<close>.\<close>

fun no_listing_answer :: "string list \<Rightarrow> nat \<Rightarrow> event \<Rightarrow> exn + response" where
  "no_listing_answer sts n (Request GET (Uri u) body) = Inl (URLError ''down'')"
| "no_listing_answer sts n ev = script_answer sts n ev"

definition no_listing_backend :: "string list \<Rightarrow> backend" where
  "no_listing_backend sts tr = no_listing_answer sts (length (filter is_fetch tr)) (last tr)"

text \<open>A profile attached to the given group ids, and a backend that resolves the
  clusters to the given group ids.\<close>

definition profile_with_groups :: "json list \<Rightarrow> json" where
  "profile_with_groups ids = JDict (fmap_of_list
     [(''id'', JInt 1), (''name'', JStr ''profile-1''),
      (''clusterGroups'',
       JList (map (\<lambda>g. JDict (fmap_of_list [(''omevv_groupID'', g)])) ids))])"

fun groups_answer :: "json list \<Rightarrow> event \<Rightarrow> exn + response" where
  "groups_answer ids (Request POST u body) =
     ok (JList (map (\<lambda>g. JDict (fmap_of_list [(''groupId'', g)])) ids))"
| "groups_answer ids ev = example_answer [] ev"

definition groups_backend :: "json list \<Rightarrow> backend" where
  "groups_backend ids tr = groups_answer ids (last tr)"

definition group_lookups :: trace where
  "group_lookups =
     [Request GET (Uri (CLUSTER_URI ''uuid'')) None,
      Request POST (Uri (CLUSTER_IDS_URI ''uuid''))
        (Some (JDict (fmap_of_list [(''clustIds'', JList [JInt 10])])))]"

definition unsuccessful_backend :: backend where
  "unsuccessful_backend tr = Inr \<lparr>success = False, json_data = JNull\<rparr>"

definition clusters_request :: "string \<Rightarrow> event" where
  "clusters_request u = Request GET (Uri (CLUSTER_URI u)) None"

definition groups_request :: "string \<Rightarrow> json list \<Rightarrow> event" where
  "groups_request u cluster_ids =
     Request POST (Uri (CLUSTER_IDS_URI u))
       (Some (JDict (fmap_of_list [(''clustIds'', JList cluster_ids)])))"

text \<open>A backend whose cluster listing holds \<^verbatim>\<open>cluster-1\<close> and whose group lookup
  raises.\<close>

fun failing_groups_answer :: "event \<Rightarrow> exn + response" where
  "failing_groups_answer (Request POST u body) = Inl (ConnectionError ''Connection reset'')"
| "failing_groups_answer ev = example_answer [] ev"

definition failing_groups_backend :: backend where
  "failing_groups_backend tr = failing_groups_answer (last tr)"

text \<open>A backend that answers every request with an HTTP error of the given status and
  body.\<close>

definition error_body :: "string \<Rightarrow> string \<Rightarrow> json" where
  "error_body c t = JDict (fmap_of_list [(''errorCode'', JStr c), (''message'', JStr t)])"

definition http_error_backend :: "int \<Rightarrow> json \<Rightarrow> backend" where
  "http_error_backend code body tr = Inl (HTTPError code (Some body))"

definition check_module :: module where
  "check_module = example_module\<lparr>check_mode := True\<rparr>"

definition modify_lookups :: trace where
  "modify_lookups = cluster_lookups
     @ [Request GET (UriWithId (DRIFT_URI ''uuid'') (JInt 99)) None]"

definition repositories_request :: event where
  "repositories_request = Request GET (Uri PROFILE_URI) None"

definition delete_request :: "string \<Rightarrow> json \<Rightarrow> event" where
  "delete_request u i = Request DELETE (UriWithId (BASELINE_PROFILE_URI u) i) None"

definition example_delete_diff :: json where
  "example_delete_diff = mk_diff (fmap_of_list
     [(''name'', JStr ''profile-1''),
      (''description'', JStr ''baseline''),
      (''firmwareRepoId'', JInt 5),
      (''firmwareRepoName'', JStr ''repository-profile''),
      (''clusterGroups'', JList [JDict (fmap_of_list
         [(''clusterID'', JInt 10), (''clusterName'', JStr ''cluster-1''),
          (''omevv_groupID'', JInt 7)])])]) fmempty"

definition absent_flags :: "bool \<Rightarrow> bool \<Rightarrow> module" where
  "absent_flags check d = absent_module\<lparr>check_mode := check, diff_mode := d\<rparr>"

definition other_repository_module :: module where
  "other_repository_module =
     example_module\<lparr>params := example_params\<lparr>p_repository_profile := Some ''no-such-profile''\<rparr>\<rparr>"

section \<open>Properties\<close>

lemma create_job_schedule_absent:
  "create_job_schedule None time = JNull"
  "create_job_schedule (Some []) time = JNull"
  "create_job_schedule days None = JNull"
  "create_job_schedule days (Some []) = JNull"
  by (simp_all add: create_job_schedule_def split: option.splits)

text \<open>
  C6, as the claim states it, fails: with \<^verbatim>\<open>days = ["all"]\<close> and the empty string for
  \<^verbatim>\<open>time\<close> (a time that is given, not absent) the builder returns \<^verbatim>\<open>None\<close>, not a
  schedule with seven true flags.
\<close>

theorem C6_all_with_empty_time_counterexample:
  "''all'' \<in> set [''all''] \<and> Some [''all''] \<noteq> None \<and> [''all''] \<noteq> [] \<and> Some '''' \<noteq> None
   \<and> create_job_schedule (Some [''all'']) (Some '''') = JNull
   \<and> create_job_schedule (Some [''all'']) (Some '''') \<noteq> schedule True True True True True True True ''''"
  by (simp add: create_job_schedule_def schedule_def Let_def)

text \<open>
  C6, amended: the schedule builder returns \<^verbatim>\<open>None\<close> when \<^verbatim>\<open>days\<close> is absent or empty
  or \<^verbatim>\<open>time\<close> is absent or the empty string; otherwise, when \<^verbatim>\<open>"all"\<close> is among the
  days all seven flags are true, and when it is not each flag is true exactly when its
  day name is among the days (compared as strings, case-sensitively); the time is
  stored as given.
\<close>

theorem C6_create_job_schedule:
  "(days = None \<or> days = Some [] \<or> time = None \<or> time = Some [] \<longrightarrow>
      create_job_schedule days time = JNull)
   \<and> (days = Some ds \<and> ds \<noteq> [] \<and> time = Some t \<and> t \<noteq> [] \<and> ''all'' \<in> set ds \<longrightarrow>
      create_job_schedule days time = schedule True True True True True True True t)
   \<and> (days = Some ds \<and> ds \<noteq> [] \<and> time = Some t \<and> t \<noteq> [] \<and> ''all'' \<notin> set ds \<longrightarrow>
      create_job_schedule days time =
        schedule (''monday'' \<in> set ds) (''tuesday'' \<in> set ds) (''wednesday'' \<in> set ds)
          (''thursday'' \<in> set ds) (''friday'' \<in> set ds) (''saturday'' \<in> set ds)
          (''sunday'' \<in> set ds) t)"
  by (auto simp: create_job_schedule_def schedule_def Let_def split: option.splits)

theorem C6_create_job_schedule_witness:
  "create_job_schedule (Some []) (Some ''08:00'') = JNull
   \<and> create_job_schedule (Some [''all'']) (Some ''08:00'')
       = schedule True True True True True True True ''08:00''
   \<and> create_job_schedule (Some [''monday'', ''friday'']) (Some ''20:00'')
       = schedule True False False False True False False ''20:00''
   \<and> create_job_schedule (Some [''Monday'']) (Some ''20:00'')
       = schedule False False False False False False False ''20:00''"
  using C6_create_job_schedule [of "Some []" "Some ''08:00''" "[]" "''08:00''"]
    C6_create_job_schedule [of "Some [''all'']" "Some ''08:00''" "[''all'']" "''08:00''"]
    C6_create_job_schedule [of "Some [''monday'', ''friday'']" "Some ''20:00''"
      "[''monday'', ''friday'']" "''20:00''"]
    C6_create_job_schedule [of "Some [''Monday'']" "Some ''20:00''" "[''Monday'']" "''20:00''"]
  by simp

lemma bind_simps:
  "bind (return x) f tr = f x tr"
  "bind (raise err) f tr = (Inl (Raise err), tr)"
  "bind (exit_json kw) f tr = (Inl (Exit kw), tr)"
  "bind (abort_with a) f tr = (Inl a, tr)"
  "bind (lift (Inr x)) f tr = f x tr"
  "bind (lift (Inl err)) f tr = (Inl (Raise err), tr)"
  by (simp_all add: bind_def return_def raise_def exit_json_def abort_with_def lift_def)

lemma io_simps:
  "return x tr = (Inr x, tr)"
  "raise err tr = (Inl (Raise err), tr)"
  "exit_json kw tr = (Inl (Exit kw), tr)"
  "abort_with a tr = (Inl a, tr)"
  "lift (Inr x) tr = (Inr x, tr)"
  "lift (Inl err) tr = (Inl (Raise err), tr)"
  by (simp_all add: return_def raise_def exit_json_def abort_with_def lift_def)

lemma lift_trace: "snd (lift r tr) = tr"
  by (cases r) (simp_all add: io_simps)

lemma lift_keeps_trace: "lift r tr = (x, tr') \<Longrightarrow> tr' = tr"
  using lift_trace [of r tr] by simp

lemma validate_common_params_aborts:
  "\<exists>a. validate_common_params e m tr = (Inl a, tr)"
  by (auto simp: validate_common_params_def validate_repository_profile_def bind_simps io_simps
      split: option.splits)

lemma validate_common_params_TypeError:
  "\<not> validate_job_wait e m \<Longrightarrow> validate_time e (p_time (params m)) m = None \<Longrightarrow>
   validate_common_params e m tr = (Inl (Raise (TypeError (missing_argument ''validate_repository_profile'' ''module''))), tr)"
  by (auto simp: validate_common_params_def validate_repository_profile_def bind_simps io_simps
      split: option.splits)

lemma get_baseline_profile_by_name_trace:
  "snd (get_baseline_profile_by_name b n u tr) = tr @ [Request GET (Uri (BASELINE_PROFILE_URI u)) None]"
  by (auto simp: get_baseline_profile_by_name_def get_baseline_profiles_def invoke_request_def
      bind_def Let_def io_simps lift_trace split: sum.splits prod.splits dest: lift_keeps_trace)

lemma Create_execute_aborts: "\<exists>a. Create_execute e m tr = (Inl a, tr)"
  using validate_common_params_aborts [of e m tr]
  by (auto simp: Create_execute_def bind_def Let_def)

lemma Modify_execute_aborts: "\<exists>a. Modify_execute e m x tr = (Inl a, tr)"
  using validate_common_params_aborts [of e m tr]
  by (auto simp: Modify_execute_def bind_def Let_def)

lemma Delete_execute_trace:
  "snd (Delete_execute e m n tr) = tr @ [Request GET (Uri (BASELINE_PROFILE_URI (p_vcenter_uuid (params m)))) None]"
  using get_baseline_profile_by_name_trace [of "rest_obj e" n "p_vcenter_uuid (params m)" tr]
  by (auto simp: Delete_execute_def bind_def io_simps lift_trace split: sum.splits prod.splits
      dest: lift_keeps_trace)

lemma main_body_trace:
  "snd (main_body e m []) = [Request GET (Uri (BASELINE_PROFILE_URI (p_vcenter_uuid (params m)))) None]"
proof (cases "p_state (params m)")
  case present
  obtain r tr where g: "get_baseline_profile_by_name (rest_obj e) (p_name (params m)) (p_vcenter_uuid (params m)) [] = (r, tr)"
    by (cases "get_baseline_profile_by_name (rest_obj e) (p_name (params m)) (p_vcenter_uuid (params m)) []")
  with get_baseline_profile_by_name_trace [of "rest_obj e" "p_name (params m)" "p_vcenter_uuid (params m)" "[]"]
  have tr: "tr = [Request GET (Uri (BASELINE_PROFILE_URI (p_vcenter_uuid (params m)))) None]" by simp
  show ?thesis
  proof (cases r)
    case (Inl a)
    with present g tr show ?thesis by (simp add: main_body_def bind_def)
  next
    case (Inr x)
    obtain a1 where "Modify_execute e m x tr = (Inl a1, tr)" using Modify_execute_aborts by blast
    moreover obtain a2 where "Create_execute e m tr = (Inl a2, tr)" using Create_execute_aborts by blast
    ultimately show ?thesis using present g tr Inr by (simp add: main_body_def bind_def)
  qed
next
  case absent
  then show ?thesis using Delete_execute_trace [of e m "p_name (params m)" "[]"]
    by (simp add: main_body_def)
qed

lemma main_trace:
  "snd (main e m) = [Request GET (Uri (BASELINE_PROFILE_URI (p_vcenter_uuid (params m)))) None]"
  using main_body_trace [of e m]
  by (auto simp: main_def split: prod.splits sum.splits abort.splits)

lemmas run_defs = main_def main_body_def Create_execute_def Modify_execute_def Delete_execute_def
  validate_common_params_def validate_repository_profile_def
  get_baseline_profile_by_name_def get_baseline_profiles_def invoke_request_def
  bind_def return_def raise_def exit_json_def lift_def abort_with_def Let_def
  example_env_def example_backend_def example_module_def example_params_def example_profile_def
  job_wait_check_def time_check_def ok_def unreachable_backend_def listing_def
  BASELINE_PROFILE_URI_def CLUSTER_URI_def PROFILE_URI_def DRIFT_URI_def get_def

lemma main_body_present_TypeError:
  assumes "p_state (params m) = present"
    and "get_baseline_profile_by_name (rest_obj e) (p_name (params m)) (p_vcenter_uuid (params m)) [] = (Inr existing_profile, tr)"
    and "\<not> validate_job_wait e m" and "validate_time e (p_time (params m)) m = None"
  shows "main_body e m [] = (Inl (Raise (TypeError (missing_argument ''validate_repository_profile'' ''module''))), tr)"
  using assms validate_common_params_TypeError [of e m tr]
  by (simp add: main_body_def bind_def Create_execute_def Modify_execute_def Let_def)

lemma main_body_absent_AttributeError:
  assumes "p_state (params m) = absent"
    and "get_baseline_profile_by_name (rest_obj e) (p_name (params m)) (p_vcenter_uuid (params m)) [] = (Inr profile_exists, tr)"
    and "truthy profile_exists" and "\<not> check_mode m"
  shows "main_body e m [] = (Inl (Raise (AttributeError (no_attribute ''DeleteBaselineProfile'' ''delete_baseline_profile''))), tr)"
  using assms
  by (simp add: main_body_def bind_def Delete_execute_def Let_def io_simps)

text \<open>
  C1, amended: no run of \<^verbatim>\<open>main\<close> issues a \<^verbatim>\<open>POST\<close>, \<^verbatim>\<open>PATCH\<close> or \<^verbatim>\<open>DELETE\<close> request.
  A run with \<^verbatim>\<open>state=present\<close> whose profile lookup returns, whose job-wait validation
  reports nothing and whose time validation returns raises \<^verbatim>\<open>TypeError\<close> in
  \<^verbatim>\<open>validate_common_params\<close>, at the call of \<^verbatim>\<open>validate_repository_profile\<close> with one
  argument; a run with \<^verbatim>\<open>state=absent\<close> on an existing profile outside check mode raises
  \<^verbatim>\<open>AttributeError\<close> at \<^verbatim>\<open>self.delete_baseline_profile\<close>. The last handler of \<^verbatim>\<open>main\<close>
  turns each of the two into an exit with the text of the error and \<^verbatim>\<open>failed=True\<close>.
\<close>

theorem C1_no_mutating_request:
  "filter mutating (snd (main e m)) = []
   \<and> (p_state (params m) = present
      \<and> get_baseline_profile_by_name (rest_obj e) (p_name (params m))
            (p_vcenter_uuid (params m)) [] = (Inr existing_profile, tr)
      \<and> \<not> validate_job_wait e m \<and> validate_time e (p_time (params m)) m = None
      \<longrightarrow> main_body e m [] = (Inl (Raise (TypeError (missing_argument ''validate_repository_profile'' ''module''))), tr)
        \<and> main e m = (Exited ((kwargs (JStr (missing_argument ''validate_repository_profile'' ''module'')))\<lparr>failed := Some True\<rparr>), tr))
   \<and> (p_state (params m) = absent
      \<and> get_baseline_profile_by_name (rest_obj e) (p_name (params m))
            (p_vcenter_uuid (params m)) [] = (Inr profile_exists, tr')
      \<and> truthy profile_exists \<and> \<not> check_mode m
      \<longrightarrow> main_body e m [] = (Inl (Raise (AttributeError (no_attribute ''DeleteBaselineProfile'' ''delete_baseline_profile''))), tr')
        \<and> main e m
            = (Exited ((kwargs (JStr (no_attribute ''DeleteBaselineProfile'' ''delete_baseline_profile'')))\<lparr>failed := Some True\<rparr>), tr'))"
proof (intro conjI impI)
  show "filter mutating (snd (main e m)) = []"
    by (simp add: main_trace)
next
  assume h: "p_state (params m) = present
      \<and> get_baseline_profile_by_name (rest_obj e) (p_name (params m))
            (p_vcenter_uuid (params m)) [] = (Inr existing_profile, tr)
      \<and> \<not> validate_job_wait e m \<and> validate_time e (p_time (params m)) m = None"
  then show b: "main_body e m [] = (Inl (Raise (TypeError (missing_argument ''validate_repository_profile'' ''module''))), tr)"
    using main_body_present_TypeError by blast
  then show "main e m = (Exited ((kwargs (JStr (missing_argument ''validate_repository_profile'' ''module'')))\<lparr>failed := Some True\<rparr>), tr)"
    by (simp add: main_def)
next
  assume h: "p_state (params m) = absent
      \<and> get_baseline_profile_by_name (rest_obj e) (p_name (params m))
            (p_vcenter_uuid (params m)) [] = (Inr profile_exists, tr')
      \<and> truthy profile_exists \<and> \<not> check_mode m"
  then show b: "main_body e m [] = (Inl (Raise (AttributeError (no_attribute ''DeleteBaselineProfile'' ''delete_baseline_profile''))), tr')"
    using main_body_absent_AttributeError by blast
  then show "main e m
            = (Exited ((kwargs (JStr (no_attribute ''DeleteBaselineProfile'' ''delete_baseline_profile'')))\<lparr>failed := Some True\<rparr>), tr')"
    by (simp add: main_def)
qed

lemma lookup_example_absent:
  "get_baseline_profile_by_name (example_backend []) ''profile-1'' ''uuid'' []
     = (Inr (JDict fmempty), [listing ''uuid''])"
  by (simp add: run_defs)

lemma lookup_example_present:
  "get_baseline_profile_by_name (example_backend [example_profile]) ''profile-1'' ''uuid'' []
     = (Inr example_profile, [listing ''uuid''])"
  by (simp add: run_defs)

text \<open>The two runs of C1 on the example data: a create run and a delete run of an
  existing profile.\<close>

theorem C1_no_mutating_request_witness:
  "filter mutating (snd (main (example_env (example_backend [])) example_module)) = []
   \<and> main_body (example_env (example_backend [])) example_module []
       = (Inl (Raise (TypeError (missing_argument ''validate_repository_profile'' ''module''))), [listing ''uuid''])
   \<and> main (example_env (example_backend [])) example_module
       = (Exited ((kwargs (JStr (missing_argument ''validate_repository_profile'' ''module'')))\<lparr>failed := Some True\<rparr>), [listing ''uuid''])
   \<and> main_body (example_env (example_backend [example_profile])) absent_module []
       = (Inl (Raise (AttributeError (no_attribute ''DeleteBaselineProfile'' ''delete_baseline_profile''))), [listing ''uuid''])
   \<and> main (example_env (example_backend [example_profile])) absent_module
       = (Exited ((kwargs (JStr (no_attribute ''DeleteBaselineProfile'' ''delete_baseline_profile'')))\<lparr>failed := Some True\<rparr>),
          [listing ''uuid''])"
proof -
  have p: "p_state (params example_module) = present"
    and a: "p_state (params absent_module) = absent"
    and n: "p_name (params example_module) = ''profile-1''" "p_name (params absent_module) = ''profile-1''"
    and u: "p_vcenter_uuid (params example_module) = ''uuid''" "p_vcenter_uuid (params absent_module) = ''uuid''"
    and j: "\<not> validate_job_wait (example_env (example_backend [])) example_module"
    and t: "validate_time (example_env (example_backend [])) (p_time (params example_module)) example_module = None"
    and c: "\<not> check_mode absent_module"
    and r: "rest_obj (example_env (example_backend [])) = example_backend []"
       "rest_obj (example_env (example_backend [example_profile])) = example_backend [example_profile]"
    and tp: "truthy example_profile"
    by (simp_all add: example_module_def example_params_def absent_module_def example_env_def
        job_wait_check_def time_check_def example_profile_def)
  show ?thesis
    using C1_no_mutating_request [of "example_env (example_backend [])" example_module
        "JDict fmempty" "[listing ''uuid'']" "JDict fmempty" "[]"]
      C1_no_mutating_request [of "example_env (example_backend [example_profile])" absent_module
        "JDict fmempty" "[]" example_profile "[listing ''uuid'']"]
      lookup_example_absent lookup_example_present
    by (simp add: p a n u j t c r tp listing_def)
qed

text \<open>
  C1, as the claim states it, fails: not every run with \<^verbatim>\<open>state=present\<close> raises
  \<^verbatim>\<open>TypeError\<close>. With \<^verbatim>\<open>job_wait_timeout = 0\<close> the run ends in \<^verbatim>\<open>validate_common_params\<close>
  before the faulty call, by \<^verbatim>\<open>exit_json\<close> with the timeout message; with an unreachable
  backend the profile lookup raises \<^verbatim>\<open>URLError\<close> and the run ends with
  \<^verbatim>\<open>unreachable=True\<close>, not \<^verbatim>\<open>failed=True\<close>.
\<close>

theorem C1_every_present_run_TypeError_counterexample:
  "p_state (params timeout_module) = present
   \<and> main_body (example_env (example_backend [])) timeout_module []
       = (Inl (Exit ((kwargs (JStr TIMEOUT_NEGATIVE_OR_ZERO_MSG))\<lparr>failed := Some True\<rparr>)),
          [listing ''uuid''])
   \<and> p_state (params example_module) = present
   \<and> main_body (example_env unreachable_backend) example_module []
       = (Inl (Raise (URLError ''<urlopen error [Errno 111] Connection refused>'')),
          [listing ''uuid''])
   \<and> main (example_env unreachable_backend) example_module
       = (Exited ((kwargs (JStr ''<urlopen error [Errno 111] Connection refused>''))
            \<lparr>unreachable := Some True\<rparr>), [listing ''uuid''])"
  by (simp add: run_defs timeout_module_def)

lemma find_profile_none:
  "\<forall>p\<in>set ps. \<exists>d. p = JDict d \<and> fmlookup d ''name'' \<noteq> Some (JStr n) \<Longrightarrow>
   find_profile ps n = Inr (JDict fmempty)"
  by (induction ps) (auto simp: get_def split: option.splits)

lemma lookup_without_match:
  assumes "b [Request GET (Uri (BASELINE_PROFILE_URI u)) None] = Inr resp"
    and "success resp \<longrightarrow>
           (\<exists>ps. json_data resp = JList ps
              \<and> (\<forall>p\<in>set ps. \<exists>d. p = JDict d \<and> fmlookup d ''name'' \<noteq> Some (JStr n)))"
  shows "get_baseline_profile_by_name b n u []
           = (Inr (JDict fmempty), [Request GET (Uri (BASELINE_PROFILE_URI u)) None])"
proof (cases "success resp")
  case True
  with assms(2) obtain ps where ps: "json_data resp = JList ps"
    and none: "\<forall>p\<in>set ps. \<exists>d. p = JDict d \<and> fmlookup d ''name'' \<noteq> Some (JStr n)"
    by blast
  from none have "find_profile ps n = Inr (JDict fmempty)" by (rule find_profile_none)
  with assms(1) True ps show ?thesis
    by (simp add: get_baseline_profile_by_name_def get_baseline_profiles_def invoke_request_def
        bind_def io_simps)
next
  case False
  with assms(1) show ?thesis
    by (simp add: get_baseline_profile_by_name_def get_baseline_profiles_def invoke_request_def
        bind_def io_simps)
qed

text \<open>
  C4: a run with \<^verbatim>\<open>state=absent\<close>, for which the listing of the baseline profiles of
  the vCenter holds no profile of the given name, exits with the no-changes message and
  \<^verbatim>\<open>changed=False\<close> and issues no \<^verbatim>\<open>DELETE\<close> request, whatever the check-mode and diff
  flags are. (Outside check mode and with the diff flag the exit also carries the empty
  diff.)
\<close>

theorem C4_delete_when_absent:
  assumes "p_state (params m) = absent"
    and "rest_obj e [Request GET (Uri (BASELINE_PROFILE_URI (p_vcenter_uuid (params m)))) None]
           = Inr resp"
    and "success resp \<longrightarrow>
           (\<exists>ps. json_data resp = JList ps
              \<and> (\<forall>p\<in>set ps. \<exists>d. p = JDict d
                     \<and> fmlookup d ''name'' \<noteq> Some (JStr (p_name (params m)))))"
  shows "main e m
           = (Exited (if \<not> check_mode m \<and> diff_mode m then
                        (kwargs (JStr CHANGES_NOT_FOUND_MSG))
                          \<lparr>diff := Some (mk_diff fmempty fmempty), changed := Some False\<rparr>
                      else (kwargs (JStr CHANGES_NOT_FOUND_MSG))\<lparr>changed := Some False\<rparr>),
              [Request GET (Uri (BASELINE_PROFILE_URI (p_vcenter_uuid (params m)))) None])
         \<and> changed (case fst (main e m) of Exited kw \<Rightarrow> kw) = Some False
         \<and> filter is_delete (snd (main e m)) = []"
proof -
  have g: "get_baseline_profile_by_name (rest_obj e) (p_name (params m))
             (p_vcenter_uuid (params m)) []
           = (Inr (JDict fmempty),
              [Request GET (Uri (BASELINE_PROFILE_URI (p_vcenter_uuid (params m)))) None])"
    using assms(2,3) by (rule lookup_without_match)
  have "main e m
           = (Exited (if \<not> check_mode m \<and> diff_mode m then
                        (kwargs (JStr CHANGES_NOT_FOUND_MSG))
                          \<lparr>diff := Some (mk_diff fmempty fmempty), changed := Some False\<rparr>
                      else (kwargs (JStr CHANGES_NOT_FOUND_MSG))\<lparr>changed := Some False\<rparr>),
              [Request GET (Uri (BASELINE_PROFILE_URI (p_vcenter_uuid (params m)))) None])"
    using assms(1) g
    by (simp add: main_def main_body_def Delete_execute_def bind_def io_simps)
  then show ?thesis by simp
qed

text \<open>C4 on the example data, for the four combinations of the two flags.\<close>

theorem C4_delete_when_absent_witness:
  "absent_run False False
     = (Exited ((kwargs (JStr CHANGES_NOT_FOUND_MSG))\<lparr>changed := Some False\<rparr>), [listing ''uuid''])
   \<and> absent_run True False
     = (Exited ((kwargs (JStr CHANGES_NOT_FOUND_MSG))\<lparr>changed := Some False\<rparr>), [listing ''uuid''])
   \<and> absent_run True True
     = (Exited ((kwargs (JStr CHANGES_NOT_FOUND_MSG))\<lparr>changed := Some False\<rparr>), [listing ''uuid''])
   \<and> absent_run False True
     = (Exited ((kwargs (JStr CHANGES_NOT_FOUND_MSG))
          \<lparr>diff := Some (mk_diff fmempty fmempty), changed := Some False\<rparr>), [listing ''uuid''])
   \<and> filter is_delete (snd (absent_run False False)) = []"
proof -
  have a: "p_state (params (absent_module\<lparr>check_mode := c, diff_mode := d\<rparr>)) = absent"
    and l: "rest_obj (example_env (example_backend []))
        [Request GET (Uri (BASELINE_PROFILE_URI
           (p_vcenter_uuid (params (absent_module\<lparr>check_mode := c, diff_mode := d\<rparr>))))) None]
        = Inr \<lparr>success = True, json_data = JList []\<rparr>"
    and n: "success \<lparr>success = True, json_data = JList []\<rparr> \<longrightarrow>
        (\<exists>ps. json_data \<lparr>success = True, json_data = JList []\<rparr> = JList ps
           \<and> (\<forall>p\<in>set ps. \<exists>dd. p = JDict dd
                 \<and> fmlookup dd ''name''
                   \<noteq> Some (JStr (p_name (params (absent_module\<lparr>check_mode := c, diff_mode := d\<rparr>))))))"
    for c d
    by (simp_all add: absent_module_def example_module_def example_params_def example_env_def
        example_backend_def ok_def BASELINE_PROFILE_URI_def)
  show ?thesis
    using C4_delete_when_absent [OF a l n, of False False]
      C4_delete_when_absent [OF a l n, of True False]
      C4_delete_when_absent [OF a l n, of True True]
      C4_delete_when_absent [OF a l n, of False True]
    by (simp add: absent_run_def absent_module_def example_module_def example_params_def
        listing_def)
qed

lemma poll_status_terminal:
  "has_status r ''SUCCESSFUL'' \<or> has_status r ''FAILED'' \<Longrightarrow>
   poll_status b i u r tr = Some (Inr r, tr)"
  by (subst poll_status.simps) (auto simp: has_status_def)

lemma naps_Suc: "naps u i (Suc n) = [Sleep 3, fetch u i] @ naps u i n"
  by (simp add: naps_def)

lemma poll_status_plays:
  "plays b u i tr (rs @ [r]) \<Longrightarrow> pending r0 \<Longrightarrow> \<forall>x\<in>set rs. pending x \<Longrightarrow>
   has_status r ''SUCCESSFUL'' \<or> has_status r ''FAILED'' \<Longrightarrow>
   poll_status b i u r0 tr = Some (Inr r, tr @ naps u i (Suc (length rs)))"
proof (induction rs arbitrary: r0 tr)
  case Nil
  then have b: "b (tr @ [Sleep 3, fetch u i]) = Inr r" by simp
  from Nil(2) obtain s where s: "subscript (json_data r0) ''status'' = Inr s"
      "s \<noteq> JStr ''SUCCESSFUL''" "s \<noteq> JStr ''FAILED''"
    by (auto simp: pending_def split: sum.splits)
  have step: "bind (sleep 3) (\<lambda>_. get_baseline_profile_by_id b i u) tr
              = (Inr r, tr @ [Sleep 3, fetch u i])"
    using b by (simp add: bind_def sleep_def get_baseline_profile_by_id_def invoke_request_def
        fetch_def)
  show ?case
    apply (subst poll_status.simps)
    using s step poll_status_terminal [OF Nil(4), of b i u "tr @ [Sleep 3, fetch u i]"]
    by (simp add: naps_def)
next
  case (Cons x rs)
  then have b: "b (tr @ [Sleep 3, fetch u i]) = Inr x"
    and rest: "plays b u i (tr @ [Sleep 3, fetch u i]) (rs @ [r])" by simp_all
  from Cons(3) obtain s where s: "subscript (json_data r0) ''status'' = Inr s"
      "s \<noteq> JStr ''SUCCESSFUL''" "s \<noteq> JStr ''FAILED''"
    by (auto simp: pending_def split: sum.splits)
  have step: "bind (sleep 3) (\<lambda>_. get_baseline_profile_by_id b i u) tr
              = (Inr x, tr @ [Sleep 3, fetch u i])"
    using b by (simp add: bind_def sleep_def get_baseline_profile_by_id_def invoke_request_def
        fetch_def)
  have ih: "poll_status b i u x (tr @ [Sleep 3, fetch u i])
            = Some (Inr r, (tr @ [Sleep 3, fetch u i]) @ naps u i (Suc (length rs)))"
    using Cons.IH [OF rest] Cons(4,5) by simp
  show ?case
    apply (subst poll_status.simps)
    using s step ih by (simp add: naps_Suc)
qed

lemma poll_after_first_fetch:
  assumes "fetched b u i tr (pre @ [final])" and "\<forall>x\<in>set pre. pending x"
    and "has_status final ''SUCCESSFUL'' \<or> has_status final ''FAILED''"
  shows "\<exists>r0. get_baseline_profile_by_id b i u tr = (Inr r0, tr @ [fetch u i])
           \<and> poll_status b i u r0 (tr @ [fetch u i])
               = Some (Inr final, tr @ fetches u i (Suc (length pre)))"
proof (cases pre)
  case Nil
  with assms show ?thesis
    using poll_status_terminal [OF assms(3), of b i u "tr @ [fetch u i]"]
    by (simp add: get_baseline_profile_by_id_def invoke_request_def fetch_def fetches_def naps_def)
next
  case (Cons r0 rs)
  with assms have b: "b (tr @ [fetch u i]) = Inr r0"
    and pl: "plays b u i (tr @ [fetch u i]) (rs @ [final])"
    and p0: "pending r0" and ps: "\<forall>x\<in>set rs. pending x" by simp_all
  from poll_status_plays [OF pl p0 ps assms(3)] b Cons show ?thesis
    by (simp add: get_baseline_profile_by_id_def invoke_request_def fetch_def fetches_def)
qed

lemma perform_create_polls:
  assumes sub: "rest [create_request (p_vcenter_uuid (params m)) payload] = Inr submit"
      "success submit"
    and f: "fetched rest (p_vcenter_uuid (params m)) (json_data submit)
         [create_request (p_vcenter_uuid (params m)) payload] (pre @ [final])"
    and p: "\<forall>x\<in>set pre. pending x"
    and t: "has_status final ''SUCCESSFUL'' \<or> has_status final ''FAILED''"
    and d: "Create_diff_mode_check m rest payload
         ([create_request (p_vcenter_uuid (params m)) payload]
            @ fetches (p_vcenter_uuid (params m)) (json_data submit) (Suc (length pre)))
       = (Inr d, tr_end)"
  shows "perform_create_baseline_profile m rest payload []
     = Some (Inl (Exit
         (if has_status final ''SUCCESSFUL'' then
            (kwargs (JStr SUCCESS_CREATION_MSG))
              \<lparr>baseline_profile_info := Some (json_data final),
               diff := (if diff_mode m then Some d else None), changed := Some True\<rparr>
          else
            (kwargs (JStr FAILED_CREATION_MSG))
              \<lparr>baseline_profile_info := Some (json_data final), failed := Some True\<rparr>)),
        tr_end)"
proof -
  let ?u = "p_vcenter_uuid (params m)"
  let ?tr1 = "[create_request ?u payload]"
  from poll_after_first_fetch [OF f p t] obtain r0 where
    g: "get_baseline_profile_by_id rest (json_data submit) ?u ?tr1
          = (Inr r0, ?tr1 @ [fetch ?u (json_data submit)])"
    and l: "poll_status rest (json_data submit) ?u r0 (?tr1 @ [fetch ?u (json_data submit)])
          = Some (Inr final, ?tr1 @ fetches ?u (json_data submit) (Suc (length pre)))"
    by blast
  have c: "create_baseline_profile rest (get payload ''name'') (get payload ''firmwareRepoId'')
             (get payload ''groupIds'') ?u payload []
           = (Inr (submit, if \<not> truthy (get payload ''name'')
                              \<or> \<not> truthy (get payload ''firmwareRepoId'')
                              \<or> \<not> truthy (get payload ''groupIds'')
                           then JStr ''Required parameters: name, firmware_repo_id, or group_ids are missing.''
                           else JNull), ?tr1)"
    using sub(1) by (simp add: create_baseline_profile_def invoke_request_def bind_def
        return_def create_request_def Let_def)
  have o: "create_outcome m rest payload final
             (?tr1 @ fetches ?u (json_data submit) (Suc (length pre)))
           = (Inl (Exit
         (if has_status final ''SUCCESSFUL'' then
            (kwargs (JStr SUCCESS_CREATION_MSG))
              \<lparr>baseline_profile_info := Some (json_data final),
               diff := (if diff_mode m then Some d else None), changed := Some True\<rparr>
          else
            (kwargs (JStr FAILED_CREATION_MSG))
              \<lparr>baseline_profile_info := Some (json_data final), failed := Some True\<rparr>)),
        tr_end)"
    using d t by (auto simp: create_outcome_def bind_def io_simps has_status_def kwargs_def)
  show ?thesis
    unfolding perform_create_baseline_profile_def Let_def
    using c g l o sub(2) by simp
qed

lemma perform_modify_polls:
  assumes i: "dict_get existing_profile ''id'' = Inr i"
    and sub: "rest [modify_request (p_vcenter_uuid (params m)) i payload] = Inr submit"
      "success submit"
    and f: "fetched rest (p_vcenter_uuid (params m)) i
         [modify_request (p_vcenter_uuid (params m)) i payload] (pre @ [final])"
    and p: "\<forall>x\<in>set pre. pending x"
    and t: "has_status final ''SUCCESSFUL'' \<or> has_status final ''FAILED''"
  shows "perform_modify_baseline_profile m rest existing_profile payload d []
     = Some (Inl (Exit
         (if has_status final ''SUCCESSFUL'' then
            (kwargs (JStr SUCCESS_MODIFY_MSG))
              \<lparr>baseline_profile_info := Some (json_data final),
               diff := (if diff_mode m then Some d else None), changed := Some True\<rparr>
          else
            (kwargs (JStr FAILED_MODIFY_MSG))
              \<lparr>baseline_profile_info := Some (json_data final), failed := Some True\<rparr>)),
        [modify_request (p_vcenter_uuid (params m)) i payload]
          @ fetches (p_vcenter_uuid (params m)) i (Suc (length pre)))"
proof -
  let ?u = "p_vcenter_uuid (params m)"
  let ?tr1 = "[modify_request ?u i payload]"
  from poll_after_first_fetch [OF f p t] obtain r0 where
    g: "get_baseline_profile_by_id rest i ?u ?tr1 = (Inr r0, ?tr1 @ [fetch ?u i])"
    and l: "poll_status rest i ?u r0 (?tr1 @ [fetch ?u i])
          = Some (Inr final, ?tr1 @ fetches ?u i (Suc (length pre)))"
    by blast
  have c: "bind (lift (dict_get existing_profile ''id'')) (\<lambda>profile_id.
             bind (modify_baseline_profile rest profile_id ?u payload)
               (\<lambda>(response, err_msg). return (profile_id, response))) []
           = (Inr (i, submit), ?tr1)"
    using sub(1) i by (simp add: modify_baseline_profile_def invoke_request_def bind_def
        return_def lift_def modify_request_def Let_def)
  have o: "modify_outcome m d final (?tr1 @ fetches ?u i (Suc (length pre)))
           = (Inl (Exit
         (if has_status final ''SUCCESSFUL'' then
            (kwargs (JStr SUCCESS_MODIFY_MSG))
              \<lparr>baseline_profile_info := Some (json_data final),
               diff := (if diff_mode m then Some d else None), changed := Some True\<rparr>
          else
            (kwargs (JStr FAILED_MODIFY_MSG))
              \<lparr>baseline_profile_info := Some (json_data final), failed := Some True\<rparr>)),
        ?tr1 @ fetches ?u i (Suc (length pre)))"
    using t by (auto simp: modify_outcome_def bind_def io_simps has_status_def kwargs_def)
  show ?thesis
    unfolding perform_modify_baseline_profile_def Let_def
    using c g l o sub(2) by simp
qed

text \<open>
  C5, amended: after a successful submission, \<^verbatim>\<open>perform_create_baseline_profile\<close> and
  \<^verbatim>\<open>perform_modify_baseline_profile\<close> fetch the profile, and fetch it again after a
  sleep of 3 as long as its status is neither \<^verbatim>\<open>SUCCESSFUL\<close> nor \<^verbatim>\<open>FAILED\<close>. When the
  backend answers the fetches with snapshots \<open>pre\<close> of other statuses and then with a
  snapshot \<open>final\<close> of status \<^verbatim>\<open>SUCCESSFUL\<close> or \<^verbatim>\<open>FAILED\<close>, the loop ends after
  \<open>length pre\<close> sleeps. The modify path then exits; the create path first computes its
  diff, by listing the clusters and looking up their groups again, and exits provided
  that this computation returns. The exit has \<^verbatim>\<open>changed=True\<close> and the success message
  for \<^verbatim>\<open>SUCCESSFUL\<close>, \<^verbatim>\<open>failed=True\<close> and the failure message for \<^verbatim>\<open>FAILED\<close>, and the
  final snapshot attached in both cases.
\<close>

theorem C5_polling_until_terminal:
  assumes "\<forall>x\<in>set pre. pending x"
    and "has_status final ''SUCCESSFUL'' \<or> has_status final ''FAILED''"
  shows "(rest [create_request (p_vcenter_uuid (params m)) payload] = Inr submit
          \<and> success submit
          \<and> fetched rest (p_vcenter_uuid (params m)) (json_data submit)
               [create_request (p_vcenter_uuid (params m)) payload] (pre @ [final])
          \<and> Create_diff_mode_check m rest payload
               ([create_request (p_vcenter_uuid (params m)) payload]
                  @ fetches (p_vcenter_uuid (params m)) (json_data submit) (Suc (length pre)))
             = (Inr d, tr_end)
          \<longrightarrow> perform_create_baseline_profile m rest payload []
              = Some (Inl (Exit
                  (if has_status final ''SUCCESSFUL'' then
                     (kwargs (JStr SUCCESS_CREATION_MSG))
                       \<lparr>baseline_profile_info := Some (json_data final),
                        diff := (if diff_mode m then Some d else None), changed := Some True\<rparr>
                   else
                     (kwargs (JStr FAILED_CREATION_MSG))
                       \<lparr>baseline_profile_info := Some (json_data final),
                        failed := Some True\<rparr>)),
                 tr_end))
       \<and> (dict_get existing_profile ''id'' = Inr i
          \<and> rest [modify_request (p_vcenter_uuid (params m)) i payload'] = Inr submit'
          \<and> success submit'
          \<and> fetched rest (p_vcenter_uuid (params m)) i
               [modify_request (p_vcenter_uuid (params m)) i payload'] (pre @ [final])
          \<longrightarrow> perform_modify_baseline_profile m rest existing_profile payload' d' []
              = Some (Inl (Exit
                  (if has_status final ''SUCCESSFUL'' then
                     (kwargs (JStr SUCCESS_MODIFY_MSG))
                       \<lparr>baseline_profile_info := Some (json_data final),
                        diff := (if diff_mode m then Some d' else None), changed := Some True\<rparr>
                   else
                     (kwargs (JStr FAILED_MODIFY_MSG))
                       \<lparr>baseline_profile_info := Some (json_data final),
                        failed := Some True\<rparr>)),
                 [modify_request (p_vcenter_uuid (params m)) i payload']
                   @ fetches (p_vcenter_uuid (params m)) i (Suc (length pre))))"
  using assms perform_create_polls [of rest m payload submit pre final d tr_end]
    perform_modify_polls [of existing_profile i rest m payload' submit' pre final d']
  by blast

lemmas example_defs = status_backend_def snapshot_def example_payload_def
  example_modify_payload_def example_create_diff_def cluster_lookups_def
  create_request_def modify_request_def fetch_def fetches_def naps_def
  has_status_def pending_def schedule_def mk_diff_def drop_none_def
  Create_diff_mode_check_def get_cluster_id_def get_group_ids_for_clusters_def
  cluster_entity_ids_def cluster_groups_of_def CLUSTER_IDS_URI_def

lemma create_diff_after_polling:
  "Create_diff_mode_check example_module (status_backend sts) example_payload tr
     = (Inr example_create_diff, tr @ cluster_lookups)"
  apply (simp add: run_defs example_defs)
  done

lemma snapshot_status:
  "pending (snapshot ''PENDING'')" "has_status (snapshot ''SUCCESSFUL'') ''SUCCESSFUL''"
  "has_status (snapshot ''FAILED'') ''FAILED''" "\<not> has_status (snapshot ''FAILED'') ''SUCCESSFUL''"
  by (simp_all add: pending_def has_status_def snapshot_def)

lemma example_uuid: "p_vcenter_uuid (params example_module) = ''uuid''"
  "\<not> diff_mode example_module"
  by (simp_all add: example_module_def example_params_def)

lemma example_id: "dict_get example_profile ''id'' = Inr (JInt 1)"
  by (simp add: example_profile_def get_def)

lemma fetches_simps:
  "fetches u i (Suc n) = fetch u i # naps u i n"
  "naps u i (Suc n) = Sleep 3 # fetch u i # naps u i n"
  "naps u i 0 = []"
  by (simp_all add: fetches_def naps_def)

text \<open>C5 for the status sequences \<^verbatim>\<open>[PENDING, PENDING, SUCCESSFUL]\<close> and
  \<^verbatim>\<open>[PENDING, FAILED]\<close>, on the create and on the modify path.\<close>

theorem C5_polling_until_terminal_witness:
  "perform_create_baseline_profile example_module
       (status_backend [''PENDING'', ''PENDING'', ''SUCCESSFUL'']) example_payload []
     = Some (Inl (Exit ((kwargs (JStr SUCCESS_CREATION_MSG))
                \<lparr>baseline_profile_info := Some (json_data (snapshot ''SUCCESSFUL'')),
                 changed := Some True\<rparr>)),
             [create_request ''uuid'' example_payload,
              fetch ''uuid'' (JInt 1), Sleep 3, fetch ''uuid'' (JInt 1), Sleep 3,
              fetch ''uuid'' (JInt 1)] @ cluster_lookups)
   \<and> perform_create_baseline_profile example_module
       (status_backend [''PENDING'', ''FAILED'']) example_payload []
     = Some (Inl (Exit ((kwargs (JStr FAILED_CREATION_MSG))
                \<lparr>baseline_profile_info := Some (json_data (snapshot ''FAILED'')),
                 failed := Some True\<rparr>)),
             [create_request ''uuid'' example_payload,
              fetch ''uuid'' (JInt 1), Sleep 3, fetch ''uuid'' (JInt 1)] @ cluster_lookups)
   \<and> perform_modify_baseline_profile example_module
       (status_backend [''PENDING'', ''PENDING'', ''SUCCESSFUL'']) example_profile
       example_modify_payload (mk_diff fmempty fmempty) []
     = Some (Inl (Exit ((kwargs (JStr SUCCESS_MODIFY_MSG))
                \<lparr>baseline_profile_info := Some (json_data (snapshot ''SUCCESSFUL'')),
                 changed := Some True\<rparr>)),
             [modify_request ''uuid'' (JInt 1) example_modify_payload,
              fetch ''uuid'' (JInt 1), Sleep 3, fetch ''uuid'' (JInt 1), Sleep 3,
              fetch ''uuid'' (JInt 1)])
   \<and> perform_modify_baseline_profile example_module
       (status_backend [''PENDING'', ''FAILED'']) example_profile
       example_modify_payload (mk_diff fmempty fmempty) []
     = Some (Inl (Exit ((kwargs (JStr FAILED_MODIFY_MSG))
                \<lparr>baseline_profile_info := Some (json_data (snapshot ''FAILED'')),
                 failed := Some True\<rparr>)),
             [modify_request ''uuid'' (JInt 1) example_modify_payload,
              fetch ''uuid'' (JInt 1), Sleep 3, fetch ''uuid'' (JInt 1)])"
proof -
  let ?pps = "status_backend [''PENDING'', ''PENDING'', ''SUCCESSFUL'']"
  let ?pf = "status_backend [''PENDING'', ''FAILED'']"
  let ?ok1 = "\<lparr>success = True, json_data = JInt 1\<rparr>"
  let ?okn = "\<lparr>success = True, json_data = JNull\<rparr>"
  have p2: "\<forall>x\<in>set [snapshot ''PENDING'', snapshot ''PENDING'']. pending x"
    and p1: "\<forall>x\<in>set [snapshot ''PENDING'']. pending x"
    by (simp_all add: snapshot_status)
  have s: "has_status (snapshot ''SUCCESSFUL'') ''SUCCESSFUL''
             \<or> has_status (snapshot ''SUCCESSFUL'') ''FAILED''"
    and f: "has_status (snapshot ''FAILED'') ''SUCCESSFUL''
             \<or> has_status (snapshot ''FAILED'') ''FAILED''"
    by (simp_all add: snapshot_status)
  have c1: "?pps [create_request ''uuid'' example_payload] = Inr ?ok1"
    and c2: "?pf [create_request ''uuid'' example_payload] = Inr ?ok1"
    and m1: "?pps [modify_request ''uuid'' (JInt 1) example_modify_payload] = Inr ?okn"
    and m2: "?pf [modify_request ''uuid'' (JInt 1) example_modify_payload] = Inr ?okn"
    by (simp_all add: status_backend_def create_request_def modify_request_def ok_def
        BASELINE_PROFILE_URI_def CLUSTER_IDS_URI_def)
  have fc1: "fetched ?pps ''uuid'' (JInt 1) [create_request ''uuid'' example_payload]
               ([snapshot ''PENDING'', snapshot ''PENDING''] @ [snapshot ''SUCCESSFUL''])"
    and fc2: "fetched ?pf ''uuid'' (JInt 1) [create_request ''uuid'' example_payload]
               ([snapshot ''PENDING''] @ [snapshot ''FAILED''])"
    and fm1: "fetched ?pps ''uuid'' (JInt 1)
               [modify_request ''uuid'' (JInt 1) example_modify_payload]
               ([snapshot ''PENDING'', snapshot ''PENDING''] @ [snapshot ''SUCCESSFUL''])"
    and fm2: "fetched ?pf ''uuid'' (JInt 1)
               [modify_request ''uuid'' (JInt 1) example_modify_payload]
               ([snapshot ''PENDING''] @ [snapshot ''FAILED''])"
    by (simp_all add: status_backend_def create_request_def modify_request_def fetch_def)
  note t1 = C5_polling_until_terminal [OF p2 s,
      where rest = ?pps and m = example_module and payload = example_payload
        and submit = ?ok1 and d = example_create_diff
        and tr_end = "[create_request ''uuid'' example_payload,
                        fetch ''uuid'' (JInt 1), Sleep 3, fetch ''uuid'' (JInt 1), Sleep 3,
                        fetch ''uuid'' (JInt 1)] @ cluster_lookups"
        and existing_profile = example_profile and i = "JInt 1"
        and payload' = example_modify_payload and submit' = ?okn
        and d' = "mk_diff fmempty fmempty"]
  note t2 = C5_polling_until_terminal [OF p1 f,
      where rest = ?pf and m = example_module and payload = example_payload
        and submit = ?ok1 and d = example_create_diff
        and tr_end = "[create_request ''uuid'' example_payload,
                        fetch ''uuid'' (JInt 1), Sleep 3, fetch ''uuid'' (JInt 1)]
                        @ cluster_lookups"
        and existing_profile = example_profile and i = "JInt 1"
        and payload' = example_modify_payload and submit' = ?okn
        and d' = "mk_diff fmempty fmempty"]
  show ?thesis
    using t1 t2 c1 c2 m1 m2 fc1 fc2 fm1 fm2 example_id
      create_diff_after_polling [of "[''PENDING'', ''PENDING'', ''SUCCESSFUL'']"
        "[create_request ''uuid'' example_payload,
          fetch ''uuid'' (JInt 1), Sleep 3, fetch ''uuid'' (JInt 1), Sleep 3,
          fetch ''uuid'' (JInt 1)]"]
      create_diff_after_polling [of "[''PENDING'', ''FAILED'']"
        "[create_request ''uuid'' example_payload,
          fetch ''uuid'' (JInt 1), Sleep 3, fetch ''uuid'' (JInt 1)]"]
    by (simp add: example_uuid snapshot_status fetches_simps kwargs_def)
qed

text \<open>
  C5, as the claim states it, fails on the create path: between the loop and every exit
  \<^verbatim>\<open>perform_create_baseline_profile\<close> calls \<^verbatim>\<open>diff_mode_check\<close>, which lists the clusters
  again. On a backend that accepts the submission and plays the status sequence
  \<^verbatim>\<open>[PENDING, PENDING, SUCCESSFUL]\<close>, but whose cluster listing raises, the run observes
  \<^verbatim>\<open>SUCCESSFUL\<close> and then ends with the \<^verbatim>\<open>URLError\<close>, not with \<^verbatim>\<open>changed=True\<close> and the
  success message.
\<close>

theorem C5_create_diff_lookup_raises_counterexample:
  "no_listing_backend [''PENDING'', ''PENDING'', ''SUCCESSFUL'']
       [create_request ''uuid'' example_payload]
     = Inr \<lparr>success = True, json_data = JInt 1\<rparr>
   \<and> fetched (no_listing_backend [''PENDING'', ''PENDING'', ''SUCCESSFUL'']) ''uuid'' (JInt 1)
       [create_request ''uuid'' example_payload]
       ([snapshot ''PENDING'', snapshot ''PENDING''] @ [snapshot ''SUCCESSFUL''])
   \<and> pending (snapshot ''PENDING'')
   \<and> has_status (snapshot ''SUCCESSFUL'') ''SUCCESSFUL''
   \<and> perform_create_baseline_profile example_module
       (no_listing_backend [''PENDING'', ''PENDING'', ''SUCCESSFUL'']) example_payload []
     = Some (Inl (Raise (URLError ''down'')),
             [create_request ''uuid'' example_payload,
              fetch ''uuid'' (JInt 1), Sleep 3, fetch ''uuid'' (JInt 1), Sleep 3,
              fetch ''uuid'' (JInt 1), Request GET (Uri (CLUSTER_URI ''uuid'')) None])"
proof -
  let ?b = "no_listing_backend [''PENDING'', ''PENDING'', ''SUCCESSFUL'']"
  let ?tr1 = "[create_request ''uuid'' example_payload]"
  have c: "?b ?tr1 = Inr \<lparr>success = True, json_data = JInt 1\<rparr>"
    by (simp add: no_listing_backend_def create_request_def ok_def BASELINE_PROFILE_URI_def
        CLUSTER_IDS_URI_def)
  have f: "fetched ?b ''uuid'' (JInt 1) ?tr1
             ([snapshot ''PENDING'', snapshot ''PENDING''] @ [snapshot ''SUCCESSFUL''])"
    by (simp add: no_listing_backend_def create_request_def fetch_def)
  have p: "\<forall>x\<in>set [snapshot ''PENDING'', snapshot ''PENDING'']. pending x"
    by (simp add: snapshot_status)
  have t: "has_status (snapshot ''SUCCESSFUL'') ''SUCCESSFUL''
             \<or> has_status (snapshot ''SUCCESSFUL'') ''FAILED''"
    by (simp add: snapshot_status)
  from poll_after_first_fetch [OF f p t] obtain r0 where
    g: "get_baseline_profile_by_id ?b (JInt 1) ''uuid'' ?tr1
          = (Inr r0, ?tr1 @ [fetch ''uuid'' (JInt 1)])"
    and l: "poll_status ?b (JInt 1) ''uuid'' r0 (?tr1 @ [fetch ''uuid'' (JInt 1)])
          = Some (Inr (snapshot ''SUCCESSFUL''),
                  ?tr1 @ fetches ''uuid'' (JInt 1)
                    (Suc (length [snapshot ''PENDING'', snapshot ''PENDING''])))"
    by blast
  have s: "create_baseline_profile ?b (get example_payload ''name'')
             (get example_payload ''firmwareRepoId'') (get example_payload ''groupIds'')
             ''uuid'' example_payload []
           = (Inr (\<lparr>success = True, json_data = JInt 1\<rparr>, JNull), ?tr1)"
    using c by (simp add: create_baseline_profile_def invoke_request_def bind_def return_def
        create_request_def Let_def example_payload_def get_def)
  have o: "create_outcome example_module ?b example_payload (snapshot ''SUCCESSFUL'')
             [create_request ''uuid'' example_payload,
              fetch ''uuid'' (JInt 1), Sleep 3, fetch ''uuid'' (JInt 1), Sleep 3,
              fetch ''uuid'' (JInt 1)]
           = (Inl (Raise (URLError ''down'')),
              [create_request ''uuid'' example_payload,
               fetch ''uuid'' (JInt 1), Sleep 3, fetch ''uuid'' (JInt 1), Sleep 3,
               fetch ''uuid'' (JInt 1), Request GET (Uri (CLUSTER_URI ''uuid'')) None])"
    by (simp add: create_outcome_def Create_diff_mode_check_def get_cluster_id_def
        invoke_request_def bind_def Let_def no_listing_backend_def example_module_def
        example_params_def fetch_def create_request_def)
  have "perform_create_baseline_profile example_module ?b example_payload []
     = Some (Inl (Raise (URLError ''down'')),
             [create_request ''uuid'' example_payload,
              fetch ''uuid'' (JInt 1), Sleep 3, fetch ''uuid'' (JInt 1), Sleep 3,
              fetch ''uuid'' (JInt 1), Request GET (Uri (CLUSTER_URI ''uuid'')) None])"
    unfolding perform_create_baseline_profile_def Let_def
    using s g l o by (simp add: example_uuid fetches_simps)
  with c f show ?thesis by (simp add: snapshot_status)
qed

lemma comprehend_hashed:
  "\<forall>g\<in>set ids. hashable g \<Longrightarrow> comprehend hashed ids = Inr ids"
  by (induction ids) (simp_all add: hashed_def)

lemma current_group_ids_distinct:
  "current_group_ids_of existing_profile = Inr E \<Longrightarrow> distinct E"
  by (auto simp: current_group_ids_of_def split: json.splits sum.splits)

text \<open>
  C7: when the group ids attached to the existing profile are \<open>E\<close> and the group ids
  resolved for the desired cluster names are \<open>D\<close>, \<^verbatim>\<open>get_add_remove_group_ids\<close> returns
  the ids to add, which are those of \<open>D\<close> not in \<open>E\<close>, and the ids to remove, which are
  those of \<open>E\<close> not in \<open>D\<close>, each id once; when the two sets are equal both lists are
  empty.
\<close>

theorem C7_add_remove_group_ids:
  assumes "current_group_ids_of existing_profile = Inr E"
    and "get_group_ids_for_clusters b vcenter_uuid cluster_names tr = (Inr D, tr')"
    and "\<forall>g\<in>set D. hashable g"
  shows "case get_add_remove_group_ids b existing_profile vcenter_uuid cluster_names tr of
           (Inr (add_group_ids, remove_group_ids), tr'') \<Rightarrow>
              set add_group_ids = set D - set E \<and> set remove_group_ids = set E - set D
              \<and> distinct add_group_ids \<and> distinct remove_group_ids
              \<and> (set D = set E \<longrightarrow> add_group_ids = [] \<and> remove_group_ids = [])
              \<and> tr'' = tr'
         | (Inl a, tr'') \<Rightarrow> False"
proof -
  have d: "distinct E" using assms(1) by (rule current_group_ids_distinct)
  have h: "comprehend hashed D = Inr D" using assms(3) by (rule comprehend_hashed)
  have r: "get_add_remove_group_ids b existing_profile vcenter_uuid cluster_names tr
        = (Inr (filter (\<lambda>g. g \<notin> set E) (remdups D),
                filter (\<lambda>g. g \<notin> set (remdups D)) E), tr')"
    using assms(1,2) h
    by (simp add: get_add_remove_group_ids_def bind_def io_simps Let_def)
  have e: "set D = set E \<Longrightarrow> filter (\<lambda>g. g \<notin> set E) (remdups D) = []
             \<and> filter (\<lambda>g. g \<notin> set D) E = []"
    by (auto simp: filter_empty_conv)
  show ?thesis
    using d e by (auto simp: r)
qed

text \<open>C7 for the attached ids 1, 2, 3 and the resolved ids 2, 3, 4, and for equal
  sets.\<close>

theorem C7_add_remove_group_ids_witness:
  "get_add_remove_group_ids (groups_backend [JInt 2, JInt 3, JInt 4])
       (profile_with_groups [JInt 1, JInt 2, JInt 3]) ''uuid'' (Some [''cluster-1'']) []
     = (Inr ([JInt 4], [JInt 1]), group_lookups)
   \<and> get_add_remove_group_ids (groups_backend [JInt 3, JInt 1, JInt 2])
       (profile_with_groups [JInt 1, JInt 2, JInt 3]) ''uuid'' (Some [''cluster-1'']) []
     = (Inr ([], []), group_lookups)"
proof -
  have c: "current_group_ids_of (profile_with_groups [JInt 1, JInt 2, JInt 3])
             = Inr [JInt 1, JInt 2, JInt 3]"
    by (simp add: current_group_ids_of_def profile_with_groups_def hashed_def)
  have g1: "get_group_ids_for_clusters (groups_backend [JInt 2, JInt 3, JInt 4]) ''uuid''
              (Some [''cluster-1'']) [] = (Inr [JInt 2, JInt 3, JInt 4], group_lookups)"
    and g2: "get_group_ids_for_clusters (groups_backend [JInt 3, JInt 1, JInt 2]) ''uuid''
              (Some [''cluster-1'']) [] = (Inr [JInt 3, JInt 1, JInt 2], group_lookups)"
    by (simp_all add: run_defs example_defs groups_backend_def group_lookups_def)
  have h1: "\<forall>g\<in>set [JInt 2, JInt 3, JInt 4]. hashable g"
    and h2: "\<forall>g\<in>set [JInt 3, JInt 1, JInt 2]. hashable g" by simp_all
  show ?thesis
    using C7_add_remove_group_ids [OF c g1 h1] C7_add_remove_group_ids [OF c g2 h2]
    by (simp add: get_add_remove_group_ids_def bind_def io_simps Let_def c g1 g2 hashed_def)
qed

text \<open>
  C8, as the claim states it, fails: a cluster listing that the REST client reports as
  unsuccessful (\<^verbatim>\<open>success\<close> false) does not reach the caller as an error; both resolvers
  return the empty list.
\<close>

theorem C8_unsuccessful_fetch_swallowed_counterexample:
  "unsuccessful_backend [clusters_request ''uuid''] = Inr \<lparr>success = False, json_data = JNull\<rparr>
   \<and> get_cluster_id unsuccessful_backend (Some [''cluster-1'']) ''uuid'' []
       = (Inr [], [clusters_request ''uuid''])
   \<and> get_group_ids_for_clusters unsuccessful_backend ''uuid'' (Some [''cluster-1'']) []
       = (Inr [], [clusters_request ''uuid''])"
  by (simp add: unsuccessful_backend_def clusters_request_def get_cluster_id_def
      get_group_ids_for_clusters_def invoke_request_def bind_def io_simps cluster_entity_ids_def)

lemma get_cluster_id_inversion:
  assumes "get_cluster_id b names u tr = (Inr ids, tr1)"
  shows "\<exists>resp. b (tr @ [clusters_request u]) = Inr resp \<and> tr1 = tr @ [clusters_request u]
           \<and> cluster_entity_ids (if success resp then json_data resp else JList []) names
               = Inr ids"
proof (cases "b (tr @ [clusters_request u])")
  case (Inl err)
  with assms show ?thesis
    by (simp add: get_cluster_id_def clusters_request_def invoke_request_def bind_def)
next
  case (Inr resp)
  with assms have "lift (cluster_entity_ids (if success resp then json_data resp else JList [])
                     names) (tr @ [clusters_request u]) = (Inr ids, tr1)"
    by (simp add: get_cluster_id_def clusters_request_def invoke_request_def bind_def Let_def)
  then have "tr1 = tr @ [clusters_request u]
      \<and> cluster_entity_ids (if success resp then json_data resp else JList []) names = Inr ids"
    by (cases "cluster_entity_ids (if success resp then json_data resp else JList []) names")
       (simp_all add: io_simps)
  with Inr show ?thesis by simp
qed

lemma group_lookup_after_clusters:
  assumes "get_cluster_id b names u tr = (Inr ids, tr1)" and "ids \<noteq> []"
  shows "get_group_ids_for_clusters b u names tr
         = bind (invoke_request b POST (Uri (CLUSTER_IDS_URI u))
                   (Some (JDict (fmap_of_list [(''clustIds'', JList ids)]))))
             (\<lambda>group_resp.
                if success group_resp then
                  bind (lift (iterate (json_data group_resp))) (\<lambda>gs.
                    lift (comprehend (\<lambda>g.
                      case subscript g ''groupId'' of
                        Inl e \<Rightarrow> Inl e | Inr i \<Rightarrow> Inr (Some i)) gs))
                else return []) tr1"
proof -
  from get_cluster_id_inversion [OF assms(1)] obtain resp where
    r: "b (tr @ [clusters_request u]) = Inr resp" and t: "tr1 = tr @ [clusters_request u]"
    and c: "cluster_entity_ids (if success resp then json_data resp else JList []) names
              = Inr ids"
    by blast
  have i: "invoke_request b GET (Uri (CLUSTER_URI u)) None tr = (Inr resp, tr1)"
    using r t by (simp add: invoke_request_def clusters_request_def)
  have l: "lift (cluster_entity_ids (if success resp then json_data resp else JList []) names)
             tr1 = (Inr ids, tr1)"
    using c by (simp add: io_simps)
  show ?thesis
    unfolding get_group_ids_for_clusters_def Let_def
    by (subst bind_def, simp only: i prod.case sum.case)
       (subst bind_def, simp only: l prod.case sum.case assms(2) if_True not_False_eq_True)
qed

lemma get_cluster_id_raises:
  "b (tr @ [clusters_request u]) = Inl err \<Longrightarrow>
   get_cluster_id b names u tr = (Inl (Raise err), tr @ [clusters_request u])"
  by (simp add: get_cluster_id_def clusters_request_def invoke_request_def bind_def)

lemma get_group_ids_raises:
  "b (tr @ [clusters_request u]) = Inl err \<Longrightarrow>
   get_group_ids_for_clusters b u names tr = (Inl (Raise err), tr @ [clusters_request u])"
  by (simp add: get_group_ids_for_clusters_def clusters_request_def invoke_request_def bind_def)

lemma no_clusters: "cluster_entity_ids (JList []) names = Inr []"
  by (simp add: cluster_entity_ids_def)

lemma get_cluster_id_empty:
  assumes "b (tr @ [clusters_request u]) = Inr resp"
    and "\<not> success resp \<or> json_data resp = JList []"
  shows "get_cluster_id b names u tr = (Inr [], tr @ [clusters_request u])"
proof -
  have "(if success resp then json_data resp else JList []) = JList []"
    using assms(2) by auto
  with assms(1) show ?thesis
    by (simp add: get_cluster_id_def clusters_request_def invoke_request_def bind_def Let_def
        no_clusters io_simps)
qed

lemma get_group_ids_empty:
  assumes "b (tr @ [clusters_request u]) = Inr resp"
    and "\<not> success resp \<or> json_data resp = JList []"
  shows "get_group_ids_for_clusters b u names tr = (Inr [], tr @ [clusters_request u])"
proof -
  have "(if success resp then json_data resp else JList []) = JList []"
    using assms(2) by auto
  with assms(1) show ?thesis
    by (simp add: get_group_ids_for_clusters_def clusters_request_def invoke_request_def
        bind_def Let_def no_clusters io_simps)
qed

lemma group_lookup_raises:
  assumes "get_cluster_id b names u tr = (Inr ids, tr1)" and "ids \<noteq> []"
    and "b (tr1 @ [groups_request u ids]) = Inl err"
  shows "get_group_ids_for_clusters b u names tr
           = (Inl (Raise err), tr1 @ [groups_request u ids])"
  using assms(3)
  by (simp add: group_lookup_after_clusters [OF assms(1,2)] groups_request_def
      invoke_request_def bind_def)

lemma group_lookup_empty:
  assumes "get_cluster_id b names u tr = (Inr ids, tr1)" and "ids \<noteq> []"
    and "b (tr1 @ [groups_request u ids]) = Inr resp"
    and "\<not> success resp \<or> json_data resp = JList []"
  shows "get_group_ids_for_clusters b u names tr = (Inr [], tr1 @ [groups_request u ids])"
proof (cases "success resp")
  case True
  with assms(4) have "json_data resp = JList []" by simp
  with assms(3) True show ?thesis
    by (simp add: group_lookup_after_clusters [OF assms(1,2)] groups_request_def
        invoke_request_def bind_def io_simps)
next
  case False
  with assms(3) show ?thesis
    by (simp add: group_lookup_after_clusters [OF assms(1,2)] groups_request_def
        invoke_request_def bind_def io_simps)
qed

text \<open>
  C8, amended: in \<^verbatim>\<open>get_cluster_id\<close> and \<^verbatim>\<open>get_group_ids_for_clusters\<close> an exception
  raised by the REST client, for the cluster listing or for the group lookup, reaches the
  caller as it is; a request that the client answers with an unsuccessful response
  (\<^verbatim>\<open>success\<close> false), or with a successful one that holds no items, gives the empty
  list, not an error.
\<close>

theorem C8_resolution_failures:
  "(b (tr @ [clusters_request u]) = Inl err \<longrightarrow>
      get_cluster_id b names u tr = (Inl (Raise err), tr @ [clusters_request u])
      \<and> get_group_ids_for_clusters b u names tr = (Inl (Raise err), tr @ [clusters_request u]))
   \<and> (b (tr @ [clusters_request u]) = Inr resp \<and> (\<not> success resp \<or> json_data resp = JList [])
      \<longrightarrow>
      get_cluster_id b names u tr = (Inr [], tr @ [clusters_request u])
      \<and> get_group_ids_for_clusters b u names tr = (Inr [], tr @ [clusters_request u]))
   \<and> (get_cluster_id b names u tr = (Inr ids, tr1) \<and> ids \<noteq> []
       \<and> b (tr1 @ [groups_request u ids]) = Inl err' \<longrightarrow>
      get_group_ids_for_clusters b u names tr = (Inl (Raise err'), tr1 @ [groups_request u ids]))
   \<and> (get_cluster_id b names u tr = (Inr ids, tr1) \<and> ids \<noteq> []
       \<and> b (tr1 @ [groups_request u ids]) = Inr resp'
       \<and> (\<not> success resp' \<or> json_data resp' = JList []) \<longrightarrow>
      get_group_ids_for_clusters b u names tr = (Inr [], tr1 @ [groups_request u ids]))"
  using get_cluster_id_raises [of b tr u err names] get_group_ids_raises [of b tr u err names]
    get_cluster_id_empty [of b tr u resp names] get_group_ids_empty [of b tr u resp names]
    group_lookup_raises [of b names u tr ids tr1 err']
    group_lookup_empty [of b names u tr ids tr1 resp']
  by blast

text \<open>C8 on examples: an unreachable backend, an empty cluster listing, and a group
  lookup that raises or is answered as unsuccessful.\<close>

theorem C8_resolution_failures_witness:
  "get_cluster_id unreachable_backend (Some [''cluster-1'']) ''uuid'' []
     = (Inl (Raise (URLError ''<urlopen error [Errno 111] Connection refused>'')),
        [clusters_request ''uuid''])
   \<and> get_group_ids_for_clusters unreachable_backend ''uuid'' (Some [''cluster-1'']) []
     = (Inl (Raise (URLError ''<urlopen error [Errno 111] Connection refused>'')),
        [clusters_request ''uuid''])
   \<and> get_cluster_id unsuccessful_backend (Some [''cluster-1'']) ''uuid'' []
     = (Inr [], [clusters_request ''uuid''])
   \<and> get_group_ids_for_clusters failing_groups_backend ''uuid'' (Some [''cluster-1'']) []
     = (Inl (Raise (ConnectionError ''Connection reset'')),
        [clusters_request ''uuid'', groups_request ''uuid'' [JInt 10]])"
proof -
  have u: "unreachable_backend ([] @ [clusters_request ''uuid''])
             = Inl (URLError ''<urlopen error [Errno 111] Connection refused>'')"
    by (simp add: unreachable_backend_def)
  have n: "unsuccessful_backend ([] @ [clusters_request ''uuid''])
             = Inr \<lparr>success = False, json_data = JNull\<rparr>
           \<and> (\<not> success \<lparr>success = False, json_data = JNull\<rparr>
               \<or> json_data \<lparr>success = False, json_data = JNull\<rparr> = JList [])"
    by (simp add: unsuccessful_backend_def)
  have f: "get_cluster_id failing_groups_backend (Some [''cluster-1'']) ''uuid'' []
             = (Inr [JInt 10], [clusters_request ''uuid''])
           \<and> [JInt 10] \<noteq> []
           \<and> failing_groups_backend ([clusters_request ''uuid''] @ [groups_request ''uuid'' [JInt 10]])
             = Inl (ConnectionError ''Connection reset'')"
    by (simp add: run_defs example_defs failing_groups_backend_def clusters_request_def
        groups_request_def)
  show ?thesis
    using C8_resolution_failures [of unreachable_backend "[]" "''uuid''"
        "URLError ''<urlopen error [Errno 111] Connection refused>''" "Some [''cluster-1'']"]
      C8_resolution_failures [of unsuccessful_backend "[]" "''uuid''" _ "Some [''cluster-1'']"
        "\<lparr>success = False, json_data = JNull\<rparr>"]
      C8_resolution_failures [of failing_groups_backend "[]" "''uuid''" _ "Some [''cluster-1'']"
        _ "[JInt 10]" "[clusters_request ''uuid'']" "ConnectionError ''Connection reset''"]
      u n f
    by simp
qed

lemmas http_defs = run_defs check_module_def http_error_backend_def error_body_def
  handle_http_error_def kwargs_def sublist_Cons_right

text \<open>
  C10, as the claim states it, fails. An HTTP error whose \<^verbatim>\<open>errorCode\<close> holds \<^verbatim>\<open>500\<close> ends
  the run with \<^verbatim>\<open>skipped=True\<close>, without \<^verbatim>\<open>failed\<close> and without the error document; and an
  HTTP error of status 500 ends the run with \<^verbatim>\<open>failed=True\<close> also in check mode with an
  \<^verbatim>\<open>errorCode\<close> that holds \<^verbatim>\<open>18001\<close>.
\<close>

theorem C10_skipped_and_status_500_counterexample:
  "main (example_env (http_error_backend 400 (error_body ''500'' ''Internal error'')))
       example_module
     = (Exited ((kwargs (JStr ''Internal error''))\<lparr>skipped := Some True\<rparr>), [listing ''uuid''])
   \<and> check_mode check_module
   \<and> main (example_env (http_error_backend 500 (error_body ''18001'' ''Profile exists'')))
       check_module
     = (Exited ((kwargs (error_body ''18001'' ''Profile exists''))\<lparr>failed := Some True\<rparr>),
        [listing ''uuid''])"
  by (simp add: http_defs)

lemma handle_http_error_cases:
  assumes "fmlookup d ''errorCode'' = Some (JStr c)"
  shows "handle_http_error m code (Some (JDict d))
       = Exited (if code = 500 then (kwargs (JDict d))\<lparr>failed := Some True\<rparr>
                 else if sublist ''18001'' c \<and> check_mode m then
                   kwargs (JStr CHANGES_NOT_FOUND_MSG)
                 else if sublist ''500'' c then (kwargs (get d ''message''))\<lparr>skipped := Some True\<rparr>
                 else (kwargs (get d ''message''))
                        \<lparr>error_info := Some (JDict d), failed := Some True\<rparr>)"
  using assms by (simp add: handle_http_error_def get_def)

text \<open>
  C10, amended: when a backend call raises an HTTP error whose body is a JSON object with
  a string \<^verbatim>\<open>errorCode\<close>, the run exits: for status 500 with the body as message and
  \<^verbatim>\<open>failed=True\<close>; otherwise, if the error code contains \<^verbatim>\<open>18001\<close> and the module is in
  check mode, with the no-changes message and no failure flag; otherwise, if the error
  code contains \<^verbatim>\<open>500\<close>, with the backend's message and \<^verbatim>\<open>skipped=True\<close>; otherwise with
  the backend's message, the error document attached and \<^verbatim>\<open>failed=True\<close>. When a backend
  call raises a \<^verbatim>\<open>URLError\<close> the run exits with \<^verbatim>\<open>unreachable=True\<close> and no \<^verbatim>\<open>failed\<close>
  flag.
\<close>

theorem C10_error_handling:
  "(main_body e m [] = (Inl (Raise (HTTPError code (Some (JDict d)))), tr)
      \<and> fmlookup d ''errorCode'' = Some (JStr c) \<longrightarrow>
    main e m
      = (Exited (if code = 500 then (kwargs (JDict d))\<lparr>failed := Some True\<rparr>
                 else if sublist ''18001'' c \<and> check_mode m then
                   kwargs (JStr CHANGES_NOT_FOUND_MSG)
                 else if sublist ''500'' c then (kwargs (get d ''message''))\<lparr>skipped := Some True\<rparr>
                 else (kwargs (get d ''message''))
                        \<lparr>error_info := Some (JDict d), failed := Some True\<rparr>), tr))
   \<and> (main_body e m [] = (Inl (Raise (URLError s)), tr') \<longrightarrow>
        main e m = (Exited ((kwargs (JStr s))\<lparr>unreachable := Some True\<rparr>), tr')
        \<and> failed ((kwargs (JStr s))\<lparr>unreachable := Some True\<rparr>) = None)"
  using handle_http_error_cases [of d c m code]
  by (simp add: main_def kwargs_def)

text \<open>C10 on examples: a conflict (error code 18001) in and outside check mode, and an
  unreachable backend.\<close>

theorem C10_error_handling_witness:
  "main (example_env (http_error_backend 409 (error_body ''18001'' ''Profile exists'')))
       check_module
     = (Exited (kwargs (JStr CHANGES_NOT_FOUND_MSG)), [listing ''uuid''])
   \<and> main (example_env (http_error_backend 409 (error_body ''18001'' ''Profile exists'')))
       example_module
     = (Exited ((kwargs (JStr ''Profile exists''))
          \<lparr>error_info := Some (error_body ''18001'' ''Profile exists''), failed := Some True\<rparr>),
        [listing ''uuid''])
   \<and> main (example_env unreachable_backend) check_module
     = (Exited ((kwargs (JStr ''<urlopen error [Errno 111] Connection refused>''))
          \<lparr>unreachable := Some True\<rparr>), [listing ''uuid''])"
proof -
  let ?d = "fmap_of_list [(''errorCode'', JStr ''18001''), (''message'', JStr ''Profile exists'')]"
  let ?e = "example_env (http_error_backend 409 (error_body ''18001'' ''Profile exists''))"
  have b1: "main_body ?e check_module [] = (Inl (Raise (HTTPError 409 (Some (JDict ?d)))),
              [listing ''uuid''])"
    and b2: "main_body ?e example_module [] = (Inl (Raise (HTTPError 409 (Some (JDict ?d)))),
              [listing ''uuid''])"
    and b3: "main_body (example_env unreachable_backend) check_module []
              = (Inl (Raise (URLError ''<urlopen error [Errno 111] Connection refused>'')),
                 [listing ''uuid''])"
    and l: "fmlookup ?d ''errorCode'' = Some (JStr ''18001'')"
    by (simp_all add: http_defs)
  show ?thesis
    using C10_error_handling [of ?e check_module 409 ?d "[listing ''uuid'']" "''18001''"]
      C10_error_handling [of ?e example_module 409 ?d "[listing ''uuid'']" "''18001''"]
      C10_error_handling [of "example_env unreachable_backend" check_module _ _ _ _
        "''<urlopen error [Errno 111] Connection refused>''" "[listing ''uuid'']"]
      b1 b2 b3 l
    by (simp add: error_body_def check_module_def example_module_def get_def sublist_Cons_right)
qed

lemmas bug_defs = run_defs example_defs absent_flags_def absent_module_def kwargs_def
  other_repository_module_def example_delete_diff_def check_module_def

lemma modify_diff_on_example:
  "Modify_diff_mode_check example_module (example_backend [example_profile])
       example_profile example_modify_payload []
     = (Inr (fmempty, fmempty), modify_lookups)"
  apply (simp add: run_defs example_defs Modify_diff_mode_check_def modify_lookups_def
      get_current_job_schedule_def modified_keys_def)
  apply (rule fmap_ext)
  apply auto
  done

lemma modify_inputs_on_example:
  "get_add_remove_group_ids (example_backend [example_profile]) example_profile ''uuid''
       (Some [''cluster-1'']) []
     = (Inr ([], []), group_lookups)"
  "get_repo_id_by_name (example_backend [example_profile]) (Some ''repository-profile'') []
     = (Inr (JInt 5), [repositories_request])"
  "create_job_schedule (Some [''all'']) (Some ''08:00'')
     = schedule True True True True True True True ''08:00''"
  by (simp_all add: run_defs example_defs get_add_remove_group_ids_def current_group_ids_of_def
      hashed_def group_lookups_def get_repo_id_by_name_def get_firmware_repository_profile_def
      search_profile_name_def repositories_request_def create_job_schedule_def)

text \<open>
  C2 fails on the code. In check mode with the diff flag, the delete of an existing
  profile exits with the diff of the profile; the same run outside check mode raises
  \<^verbatim>\<open>AttributeError\<close> at \<^verbatim>\<open>self.delete_baseline_profile\<close> and exits with \<^verbatim>\<open>failed=True\<close> and
  no diff, although \<^verbatim>\<open>perform_delete_baseline_profile\<close>, the method that \<^verbatim>\<open>execute\<close> does
  not reach, would compute that very diff. A create run in check mode does not get as far
  as its check-mode exit. None of these runs issues a mutating request.
\<close>

theorem C2_check_mode_diff_has_no_real_run:
  "main (example_env (example_backend [example_profile])) (absent_flags True True)
     = (Exited ((kwargs (JStr CHANGES_FOUND_MSG))
          \<lparr>diff := Some example_delete_diff, changed := Some True\<rparr>), [listing ''uuid''])
   \<and> main (example_env (example_backend [example_profile])) (absent_flags False True)
     = (Exited ((kwargs (JStr (no_attribute ''DeleteBaselineProfile''
                                 ''delete_baseline_profile'')))\<lparr>failed := Some True\<rparr>),
        [listing ''uuid''])
   \<and> perform_delete_baseline_profile (absent_flags False True)
       (example_backend [example_profile]) example_profile []
     = (Inl (Exit ((kwargs (JStr SUCCESS_DELETION_MSG))
          \<lparr>baseline_profile_info := Some (JDict fmempty), diff := Some example_delete_diff,
           changed := Some True\<rparr>)), [delete_request ''uuid'' (JInt 1)])
   \<and> main (example_env (example_backend [])) (example_module\<lparr>check_mode := True, diff_mode := True\<rparr>)
     = (Exited ((kwargs (JStr (missing_argument ''validate_repository_profile'' ''module'')))
          \<lparr>failed := Some True\<rparr>), [listing ''uuid''])"
  by (simp add: bug_defs Delete_diff_mode_check_def perform_delete_baseline_profile_def
      delete_baseline_profile_def delete_request_def)

text \<open>
  C3 fails on the code. On the example the existing profile, with the current job
  schedule in place of its schedule, equals the desired payload on the six keys: the
  inputs that \<^verbatim>\<open>execute\<close> would compute are as below and \<^verbatim>\<open>diff_mode_check\<close> returns the
  empty diff for them. But the run of \<^verbatim>\<open>main\<close> does not exit with the no-changes message
  and \<^verbatim>\<open>changed=False\<close>: it raises \<^verbatim>\<open>TypeError\<close> in \<^verbatim>\<open>validate_common_params\<close>, before the
  diff, and exits with \<^verbatim>\<open>failed=True\<close>. It issues no mutating request.
\<close>

theorem C3_unchanged_modify_run_fails:
  "get_baseline_profile_by_name (example_backend [example_profile]) ''profile-1'' ''uuid'' []
     = (Inr example_profile, [listing ''uuid''])
   \<and> get_add_remove_group_ids (example_backend [example_profile]) example_profile ''uuid''
       (Some [''cluster-1'']) []
     = (Inr ([], []), group_lookups)
   \<and> Modify_diff_mode_check example_module (example_backend [example_profile])
       example_profile example_modify_payload []
     = (Inr (fmempty, fmempty), modify_lookups)
   \<and> main (example_env (example_backend [example_profile])) example_module
     = (Exited ((kwargs (JStr (missing_argument ''validate_repository_profile'' ''module'')))
          \<lparr>failed := Some True\<rparr>), [listing ''uuid''])"
proof -
  have "main (example_env (example_backend [example_profile])) example_module
     = (Exited ((kwargs (JStr (missing_argument ''validate_repository_profile'' ''module'')))
          \<lparr>failed := Some True\<rparr>), [listing ''uuid''])"
    by (simp add: bug_defs)
  then show ?thesis
    using lookup_example_present modify_inputs_on_example(1) modify_diff_on_example by simp
qed

lemma search_profiles_none:
  "\<forall>p\<in>set ps. \<exists>d. p = JDict d \<and> fmlookup d ''profileName'' \<noteq> Some (JStr n) \<Longrightarrow>
   search_profiles ps n = Inr (JDict fmempty)"
  by (induction ps) (auto simp: get_def split: option.splits)

lemma get_repo_id_by_name_absent:
  assumes "b [repositories_request] = Inr resp" and "json_data resp = JList ps"
    and "\<forall>p\<in>set ps. \<exists>d. p = JDict d \<and> fmlookup d ''profileName'' \<noteq> Some (JStr n)"
    and "n \<noteq> []"
  shows "get_repo_id_by_name b (Some n) [] = (Inr JNull, [repositories_request])"
  using assms(1,2,4) search_profiles_none [OF assms(3)]
  by (simp add: get_repo_id_by_name_def get_firmware_repository_profile_def
      search_profile_name_def repositories_request_def invoke_request_def bind_def io_simps)

text \<open>
  C9 fails on the code. \<^verbatim>\<open>get_repo_id_by_name\<close> returns \<^verbatim>\<open>None\<close> for a name that no
  repository profile has, and the id for a name that one has. But a run of \<^verbatim>\<open>main\<close> with
  such a name does not end with a message about the repository profile: the validation
  that has this message, \<^verbatim>\<open>validate_repository_profile\<close>, is called with one argument,
  and the run ends with the text of the \<^verbatim>\<open>TypeError\<close> and \<^verbatim>\<open>failed=True\<close>.
\<close>

theorem C9_unknown_repository_profile_run:
  "get_repo_id_by_name (example_backend []) (Some ''no-such-profile'') []
     = (Inr JNull, [repositories_request])
   \<and> get_repo_id_by_name (example_backend []) (Some ''repository-profile'') []
     = (Inr (JInt 5), [repositories_request])
   \<and> validate_repository_profile (example_backend []) (Some ''no-such-profile'')
       (Some other_repository_module) []
     = (Inr (fmap_of_list
          [(''error'', JStr (INVALID_REPO_PROFILE_MSG (Some ''no-such-profile'')))]),
        [repositories_request])
   \<and> main (example_env (example_backend [])) other_repository_module
     = (Exited ((kwargs (JStr (missing_argument ''validate_repository_profile'' ''module'')))
          \<lparr>failed := Some True\<rparr>), [listing ''uuid''])"
  by (simp add: bug_defs get_repo_id_by_name_def get_firmware_repository_profile_def
      search_profile_name_def repositories_request_def get_all_repository_profiles_def)

end
